theory Spec2Isabelle
  imports Main
begin

section \<open>Data model\<close>

text \<open>
  The views of \<^verbatim>\<open>guidedmodules/views.py\<close> work on database rows through the ORM.
  Each table the views touch is a list of records, in row order; a primary key
  identifies a row. Times are integers (microseconds), so that a difference of two
  times is the integer the view stores as \<^verbatim>\<open>total_seconds()\<close>, in microseconds.
\<close>

type_synonym user_id = int
type_synonym org_id = int
type_synonym project_id = int
type_synonym module_id = int
type_synonym question_id = int
type_synonym task_id = int
type_synonym answer_id = int
type_synonym timestamp = int

text \<open>Values of answers, as the request parser hands them to the view.\<close>

datatype pyvalue =
    PNone
  | PStr string
  | PInt int
  | PFile string
  | PList "pyvalue list"

text \<open>Exceptions a view lets escape (Django answers them with a server error).\<close>

datatype exc =
    ValueError string
  | DoesNotExist
  | KeyError string
  | AttributeError
  | OtherError string

datatype response =
    HttpResponse string
  | HttpResponseForbidden
  | HttpResponseNotAllowed
  | HttpResponseRedirect string
  | Http404
  | JsonOk string
  | JsonError string
  | Raised exc

record module_row =
  module_id :: module_id
  module_title :: string

record project =
  project_id :: project_id
  project_organization :: org_id

text \<open>
  A \<^verbatim>\<open>ModuleQuestion\<close>: \<^verbatim>\<open>spec["type"]\<close> is \<open>spec_type\<close>, and
  \<^verbatim>\<open>answer_type_module\<close> is the joined \<^verbatim>\<open>Module\<close> row, if any.
\<close>

record question =
  q_id :: question_id
  q_module :: module_id
  q_key :: string
  spec_type :: string
  answer_type_module :: "module_row option"

record task =
  task_id :: task_id
  task_module :: module_id
  task_project :: project_id
  task_editor :: user_id
  task_title :: string
  deleted_at :: "timestamp option"

text \<open>A \<^verbatim>\<open>TaskAnswer\<close> row: one per task and question that was interacted with.\<close>

record task_answer =
  ta_id :: answer_id
  ta_task :: task_id
  ta_question :: question_id

text \<open>
  A \<^verbatim>\<open>TaskAnswerHistory\<close> row, belonging to the \<^verbatim>\<open>TaskAnswer\<close> whose key is
  \<open>taskanswer\<close>: the views read \<^verbatim>\<open>cleared\<close>, \<^verbatim>\<open>answered_by_task\<close> and the
  value, and \<^verbatim>\<open>save_answer\<close> is called with a value, the answering tasks, a file
  and the user. No file is \<open>PNone\<close>. \<^verbatim>\<open>answered_by_task\<close> is a relation to tasks
  (the views read it with \<^verbatim>\<open>.all()\<close> and \<^verbatim>\<open>.first()\<close>): the list holds the keys of
  the related tasks, and what it means is the set of its elements.
\<close>

record task_answer_history =
  taskanswer :: answer_id
  stored_value :: pyvalue
  answered_by_task :: "task_id list"
  answered_by_file :: pyvalue
  cleared :: bool
  answered_by :: user_id

text \<open>
  An \<^verbatim>\<open>InstrumentationEvent\<close> row, with the fields the views pass to
  \<^verbatim>\<open>objects.create\<close>, and \<^verbatim>\<open>event_time\<close>, by which they order the rows: the time
  the row was created.
\<close>

record instrumentation_event =
  ev_user :: user_id
  ev_event_type :: string
  ev_event_value :: "int option"
  ev_event_time :: timestamp
  ev_module :: "module_id option"
  ev_question :: "question_id option"
  ev_project :: "project_id option"
  ev_task :: "task_id option"
  ev_answer :: "answer_id option"
  ev_extra :: "pyvalue option"

record db =
  projects :: "project list"
  questions :: "question list"
  tasks :: "task list"
  task_answers :: "task_answer list"
  task_answer_histories :: "task_answer_history list"
  events :: "instrumentation_event list"

text \<open>What \<^verbatim>\<open>task.get_answers().with_extended_info()\<close> returns, as far as the views read it.\<close>

record module_answers =
  as_dict :: "(string \<times> pyvalue) list"
  can_answer :: "question_id list"
  was_imputed :: "string list"

text \<open>What arrives in \<^verbatim>\<open>request.POST.getlist("value")\<close> or \<^verbatim>\<open>request.FILES\<close>.\<close>

datatype raw_input = RawList "string list" | RawFile string

text \<open>
  The collaborators of the views that are not part of \<^verbatim>\<open>views.py\<close>, taken as
  parameters: the permission predicates (the keyword \<^verbatim>\<open>allow_access_to_deleted\<close> is
  \<open>None\<close> where the call does not pass it), the resolver, the input parser, the
  validator, the external functions, URL building, and Python's \<^verbatim>\<open>int()\<close> on a
  string (\<open>None\<close> is its \<^verbatim>\<open>ValueError\<close>).
\<close>

record host =
  has_read_priv :: "user_id \<Rightarrow> task \<Rightarrow> bool option \<Rightarrow> bool"
  has_write_priv :: "user_id \<Rightarrow> task \<Rightarrow> bool option \<Rightarrow> bool"
  get_answers :: "db \<Rightarrow> task \<Rightarrow> exc + module_answers"
  parse :: "question \<Rightarrow> raw_input \<Rightarrow> exc + pyvalue"
  validate :: "question \<Rightarrow> pyvalue \<Rightarrow> exc + pyvalue"
  run_external_function :: "question \<Rightarrow> (string \<times> pyvalue) list \<Rightarrow> exc + pyvalue"
  get_absolute_url :: "task \<Rightarrow> string"
  py_int :: "string \<Rightarrow> int option"

section \<open>ORM queries\<close>

text \<open>\<^verbatim>\<open>get_object_or_404(Task, id=..., project__organization=request.organization)\<close>\<close>

definition project_org :: "db \<Rightarrow> project_id \<Rightarrow> org_id option" where
  "project_org d p = map_option project_organization (find (\<lambda>r. project_id r = p) (projects d))"

definition get_task_in_org :: "db \<Rightarrow> task_id \<Rightarrow> org_id \<Rightarrow> task option" where
  "get_task_in_org d i org =
     find (\<lambda>t. task_id t = i \<and> project_org d (task_project t) = Some org) (tasks d)"

text \<open>\<^verbatim>\<open>Task.objects.get(id=...)\<close>\<close>

definition get_task :: "db \<Rightarrow> task_id \<Rightarrow> task option" where
  "get_task d i = find (\<lambda>t. task_id t = i) (tasks d)"

text \<open>\<^verbatim>\<open>task.module.questions.get(id=...)\<close> with the id as the request sends it.\<close>

definition get_question :: "host \<Rightarrow> db \<Rightarrow> task \<Rightarrow> string option \<Rightarrow> exc + question" where
  "get_question h d t param =
     (case param of
        None \<Rightarrow> Inl DoesNotExist
      | Some s \<Rightarrow>
          (case py_int h s of
             None \<Rightarrow> Inl (ValueError ''invalid literal for int()'')
           | Some i \<Rightarrow>
               (case find (\<lambda>q. q_module q = task_module t \<and> q_id q = i) (questions d) of
                  None \<Rightarrow> Inl DoesNotExist
                | Some q \<Rightarrow> Inr q)))"

text \<open>\<^verbatim>\<open>TaskAnswer.objects.filter(task=task, question=q).first()\<close>\<close>

definition find_task_answer :: "db \<Rightarrow> task_id \<Rightarrow> question_id \<Rightarrow> task_answer option" where
  "find_task_answer d t q = find (\<lambda>a. ta_task a = t \<and> ta_question a = q) (task_answers d)"

text \<open>
  \<^verbatim>\<open>InstrumentationEvent.objects.filter(user=, event_type=, task=, question=)\<close>
\<close>

definition filter_events ::
  "db \<Rightarrow> user_id \<Rightarrow> string \<Rightarrow> task_id \<Rightarrow> question_id \<Rightarrow> instrumentation_event list" where
  "filter_events d u ty t q =
     filter (\<lambda>e. ev_user e = u \<and> ev_event_type e = ty \<and> ev_task e = Some t \<and> ev_question e = Some q)
       (events d)"

text \<open>\<^verbatim>\<open>.order_by('event_time').first()\<close>: the earliest row, the first of equals.\<close>

fun earliest :: "instrumentation_event list \<Rightarrow> instrumentation_event option" where
  "earliest [] = None"
| "earliest (e # es) =
     (case earliest es of
        None \<Rightarrow> Some e
      | Some e' \<Rightarrow> if ev_event_time e' < ev_event_time e then Some e' else Some e)"

text \<open>
  The time since the question was first shown:
  \<^verbatim>\<open>(timezone.now() - i_task_question_view.event_time).total_seconds() if i_task_question_view else None\<close>
\<close>

definition time_since_first_view ::
  "db \<Rightarrow> user_id \<Rightarrow> task_id \<Rightarrow> question_id \<Rightarrow> timestamp \<Rightarrow> int option" where
  "time_since_first_view d u t q now =
     map_option (\<lambda>e. now - ev_event_time e)
       (earliest (filter_events d u ''task-question-show'' t q))"

section \<open>Changing the state of a task\<close>

record state_request =
  sr_authenticated :: bool
  sr_method :: string
  sr_user :: user_id
  sr_organization :: org_id
  sr_id :: "string option"
  sr_state :: "string option"
  sr_now :: timestamp

text \<open>\<^verbatim>\<open>task.save(update_fields=["deleted_at"])\<close>: only that column of the row is written.\<close>

definition save_deleted_at :: "db \<Rightarrow> task_id \<Rightarrow> timestamp option \<Rightarrow> db" where
  "save_deleted_at d i v =
     d\<lparr>tasks := map (\<lambda>t. if task_id t = i then t\<lparr>deleted_at := v\<rparr> else t) (tasks d)\<rparr>"

definition change_task_state :: "host \<Rightarrow> db \<Rightarrow> state_request \<Rightarrow> response \<times> db" where
  "change_task_state h d r =
     (if \<not> sr_authenticated r then (HttpResponseRedirect ''login'', d)
      else if sr_method r \<noteq> ''POST'' then (HttpResponseNotAllowed, d)
      else case sr_id r of
        None \<Rightarrow> (Raised (KeyError ''id''), d)
      | Some s \<Rightarrow>
         (case py_int h s of
            None \<Rightarrow> (Raised (ValueError ''invalid literal for int()''), d)
          | Some i \<Rightarrow>
             (case get_task_in_org d i (sr_organization r) of
                None \<Rightarrow> (Http404, d)
              | Some t \<Rightarrow>
                 if \<not> has_write_priv h (sr_user r) t (Some True) then (HttpResponseForbidden, d)
                 else (case sr_state r of
                    None \<Rightarrow> (Raised (KeyError ''state''), d)
                  | Some st \<Rightarrow>
                     if st = ''delete''
                       then (HttpResponse ''ok'', save_deleted_at d (task_id t) (Some (sr_now r)))
                     else if st = ''undelete''
                       then (HttpResponse ''ok'', save_deleted_at d (task_id t) None)
                     else (HttpResponseForbidden, d)))))"

section \<open>Recording the first interaction with a question\<close>

record interaction_request =
  ir_authenticated :: bool
  ir_method :: string
  ir_user :: user_id
  ir_organization :: org_id
  ir_task :: "string option"
  ir_question :: "string option"
  ir_now :: timestamp

text \<open>Lines 413 to 434: the event that records the first interaction.\<close>

definition first_interaction_event ::
  "db \<Rightarrow> interaction_request \<Rightarrow> task \<Rightarrow> question \<Rightarrow> instrumentation_event" where
  "first_interaction_event d r t q =
     \<lparr>ev_user = ir_user r,
      ev_event_type = ''task-question-interact-first'',
      ev_event_value = time_since_first_view d (ir_user r) (task_id t) (q_id q) (ir_now r),
      ev_event_time = ir_now r,
      ev_module = Some (task_module t),
      ev_question = Some (q_id q),
      ev_project = Some (task_project t),
      ev_task = Some (task_id t),
      ev_answer = map_option ta_id (find_task_answer d (task_id t) (q_id q)),
      ev_extra = None\<rparr>"

definition instrumentation_record_interaction ::
  "host \<Rightarrow> db \<Rightarrow> interaction_request \<Rightarrow> response \<times> db" where
  "instrumentation_record_interaction h d r =
     (if \<not> ir_authenticated r then (HttpResponseRedirect ''login'', d)
      else if ir_method r \<noteq> ''POST'' then (HttpResponseNotAllowed, d)
      else case ir_task r of
        None \<Rightarrow> (Raised (KeyError ''task''), d)
      | Some s \<Rightarrow>
         (case py_int h s of
            None \<Rightarrow> (Raised (ValueError ''invalid literal for int()''), d)
          | Some i \<Rightarrow>
             (case get_task_in_org d i (ir_organization r) of
                None \<Rightarrow> (Http404, d)
              | Some t \<Rightarrow>
                 if \<not> has_read_priv h (ir_user r) t None then (HttpResponseForbidden, d)
                 else (case get_question h d t (ir_question r) of
                    Inl DoesNotExist \<Rightarrow> (HttpResponseForbidden, d)
                  | Inl e \<Rightarrow> (Raised e, d)
                  | Inr q \<Rightarrow>
                     if filter_events d (ir_user r) ''task-question-interact-first''
                          (task_id t) (q_id q) \<noteq> []
                       then (HttpResponse ''ok'', d)
                     else
                       (HttpResponse ''ok'',
                        d\<lparr>events := events d @ [first_interaction_event d r t q]\<rparr>)))))"

section \<open>The answer store behind a \<^verbatim>\<open>TaskAnswer\<close>\<close>

text \<open>
  The methods of \<^verbatim>\<open>TaskAnswer\<close> and \<^verbatim>\<open>Task\<close> that \<^verbatim>\<open>next_question\<close> calls are
  defined in \<^verbatim>\<open>guidedmodules/models.py\<close>, which is not among the sources. The view
  fixes their arguments and how their results are used; what they do is taken from the
  specification of the answer store.
\<close>

text \<open>
  Modelled from the spec: \<^verbatim>\<open>TaskAnswer.get_history\<close> and
  \<^verbatim>\<open>TaskAnswer.get_current_answer\<close> (models.py is missing). An answer has an
  append-only history of values; the current value is the latest entry.
\<close>

definition get_history :: "db \<Rightarrow> task_answer \<Rightarrow> task_answer_history list" where
  "get_history d a = filter (\<lambda>e. taskanswer e = ta_id a) (task_answer_histories d)"

definition get_current_answer :: "db \<Rightarrow> task_answer \<Rightarrow> task_answer_history option" where
  "get_current_answer d a =
     (case rev (get_history d a) of [] \<Rightarrow> None | e # _ \<Rightarrow> Some e)"

text \<open>
  Modelled from the spec: \<^verbatim>\<open>TaskAnswer.has_answer\<close> (models.py is missing). The
  states of a question are unanswered, answered and cleared, and clearing returns the
  question to unanswered: there is an answer when the current entry is not a cleared one.
\<close>

definition has_answer :: "db \<Rightarrow> task_answer \<Rightarrow> bool" where
  "has_answer d a =
     (case get_current_answer d a of None \<Rightarrow> False | Some e \<Rightarrow> \<not> cleared e)"

text \<open>
  Modelled from the spec: \<^verbatim>\<open>TaskAnswer.clear_answer\<close> (models.py is missing).
  Clearing removes the effective answer and returns the question to unanswered; the
  history is append-only, so a cleared entry is appended. The only transition into
  cleared is from answered, so an unanswered question stays as it is.
\<close>

definition clear_answer :: "db \<Rightarrow> task_answer \<Rightarrow> user_id \<Rightarrow> db" where
  "clear_answer d a u =
     (if has_answer d a
      then d\<lparr>task_answer_histories := task_answer_histories d @
             [\<lparr>taskanswer = ta_id a, stored_value = PNone, answered_by_task = [],
               answered_by_file = PNone, cleared = True, answered_by = u\<rparr>]\<rparr>
      else d)"

text \<open>
  Modelled from the spec: \<^verbatim>\<open>TaskAnswer.save_answer\<close> (models.py is missing). Saving
  records a new value only if it differs materially from the current value, by
  structural comparison, and returns whether a change occurred. A question that is
  unanswered or cleared has no current value, so that a skip stores its explicit null.
  The value of an answer by tasks is a set of references: the same tasks named in
  another order, or one of them twice, are the same value.
\<close>

definition same_answer :: "task_answer_history \<Rightarrow> pyvalue \<Rightarrow> task_id list \<Rightarrow> pyvalue \<Rightarrow> bool" where
  "same_answer e v ts f =
     (\<not> cleared e \<and> stored_value e = v \<and> set (answered_by_task e) = set ts \<and>
      answered_by_file e = f)"

definition differs_materially ::
  "db \<Rightarrow> task_answer \<Rightarrow> pyvalue \<Rightarrow> task_id list \<Rightarrow> pyvalue \<Rightarrow> bool" where
  "differs_materially d a v ts f =
     (case get_current_answer d a of
        None \<Rightarrow> True
      | Some e \<Rightarrow> \<not> same_answer e v ts f)"

definition save_answer ::
  "db \<Rightarrow> task_answer \<Rightarrow> pyvalue \<Rightarrow> task_id list \<Rightarrow> pyvalue \<Rightarrow> user_id \<Rightarrow> bool \<times> db" where
  "save_answer d a v ts f u =
     (if differs_materially d a v ts f
      then (True,
            d\<lparr>task_answer_histories := task_answer_histories d @
               [\<lparr>taskanswer = ta_id a, stored_value = v, answered_by_task = ts,
                 answered_by_file = f, cleared = False, answered_by = u\<rparr>]\<rparr>)
      else (False, d))"

text \<open>
  Modelled from the spec: \<^verbatim>\<open>Task.create\<close> (models.py is missing). A Task row is
  created, with the editor, project, module and title the view passes; its key is new.
\<close>

definition fresh_task_id :: "db \<Rightarrow> task_id" where
  "fresh_task_id d = fold max (map task_id (tasks d)) 0 + 1"

definition Task_create :: "db \<Rightarrow> user_id \<Rightarrow> project_id \<Rightarrow> module_row \<Rightarrow> task \<times> db" where
  "Task_create d editor proj m =
     (let t = \<lparr>task_id = fresh_task_id d, task_module = module_id m, task_project = proj,
                task_editor = editor, task_title = module_title m, deleted_at = None\<rparr>
      in (t, d\<lparr>tasks := tasks d @ [t]\<rparr>))"

section \<open>Answering a question: the POST branch of \<^verbatim>\<open>next_question\<close>\<close>

record question_request =
  nq_authenticated :: bool
  nq_user :: user_id
  nq_organization :: org_id
  nq_path :: string
  nq_taskid :: task_id
  nq_question :: "string option"
  nq_post_method :: "string option"
  nq_value :: "string list"
  nq_file :: "string option"
  nq_now :: timestamp

text \<open>
  Lines 49 to 98: the value to store and whether the answer is cleared, or the response
  the view returns at once. A \<^verbatim>\<open>ValueError\<close> of the parser, the validator or an
  external function becomes an error message; any other exception escapes.
\<close>

datatype parsed = Proceed pyvalue bool | Respond response

definition json_error_or_raise :: "exc \<Rightarrow> parsed" where
  "json_error_or_raise e = (case e of ValueError m \<Rightarrow> Respond (JsonError m) | _ \<Rightarrow> Respond (Raised e))"

definition parse_and_validate :: "host \<Rightarrow> question \<Rightarrow> module_answers \<Rightarrow> raw_input \<Rightarrow> parsed" where
  "parse_and_validate h q answered raw =
     (case parse h q raw of
        Inl e \<Rightarrow> json_error_or_raise e
      | Inr v \<Rightarrow>
         (case validate h q v of
            Inl e \<Rightarrow> json_error_or_raise e
          | Inr v' \<Rightarrow>
             if spec_type q = ''external-function''
             then (case run_external_function h q (as_dict answered) of
                     Inl e \<Rightarrow> json_error_or_raise e
                   | Inr v'' \<Rightarrow> Proceed v'' False)
             else Proceed v' False))"

definition read_value :: "host \<Rightarrow> question \<Rightarrow> module_answers \<Rightarrow> question_request \<Rightarrow> parsed" where
  "read_value h q answered r =
     (if nq_post_method r = Some ''clear'' then Proceed PNone True
      else if nq_post_method r = Some ''skip'' then Proceed PNone False
      else if nq_post_method r = Some ''save'' then
        (if spec_type q = ''file''
         then (case nq_file r of
                 None \<Rightarrow> Respond (JsonOk (nq_path r))
               | Some f \<Rightarrow> parse_and_validate h q answered (RawFile f))
         else parse_and_validate h q answered (RawList (nq_value r)))
      else Respond (Raised (ValueError (''invalid 'method' parameter %s'' @
             (case nq_post_method r of None \<Rightarrow> ''<not set>'' | Some m \<Rightarrow> m)))))"

text \<open>\<^verbatim>\<open>TaskAnswer.objects.get_or_create(task=task, question=q)\<close>\<close>

definition fresh_answer_id :: "db \<Rightarrow> answer_id" where
  "fresh_answer_id d = fold max (map ta_id (task_answers d)) 0 + 1"

definition get_or_create :: "db \<Rightarrow> task_id \<Rightarrow> question_id \<Rightarrow> task_answer \<times> db" where
  "get_or_create d t q =
     (case find_task_answer d t q of
        Some a \<Rightarrow> (a, d)
      | None \<Rightarrow>
         (let a = \<lparr>ta_id = fresh_answer_id d, ta_task = t, ta_question = q\<rparr>
          in (a, d\<lparr>task_answers := task_answers d @ [a]\<rparr>)))"

text \<open>\<^verbatim>\<open>value.split(',')\<close>\<close>

fun split_comma :: "string \<Rightarrow> string list" where
  "split_comma [] = [ [] ]"
| "split_comma (c # cs) =
     (if c = CHR '','' then [] # split_comma cs
      else (case split_comma cs of w # ws \<Rightarrow> (c # w) # ws | [] \<Rightarrow> [ [c] ]))"

text \<open>
  Lines 129 to 132: \<^verbatim>\<open>[Task.objects.get(id=int(item)) for item in value.split(',')]\<close>,
  stopping at the first item that is no integer or names no task.
\<close>

fun get_tasks :: "host \<Rightarrow> db \<Rightarrow> string list \<Rightarrow> exc + task list" where
  "get_tasks h d [] = Inr []"
| "get_tasks h d (item # items) =
     (case py_int h item of
        None \<Rightarrow> Inl (ValueError ''invalid literal for int()'')
      | Some i \<Rightarrow>
         (case get_task d i of
            None \<Rightarrow> Inl DoesNotExist
          | Some t \<Rightarrow>
             (case get_tasks h d items of
                Inl e \<Rightarrow> Inl e
              | Inr ts \<Rightarrow> Inr (t # ts))))"

text \<open>Line 134: \<^verbatim>\<open>t.module != q.answer_type_module or not t.has_read_priv(request.user)\<close>\<close>

definition invalid_task :: "host \<Rightarrow> user_id \<Rightarrow> question \<Rightarrow> task \<Rightarrow> bool" where
  "invalid_task h u q t =
     (Some (task_module t) \<noteq> map_option module_id (answer_type_module q)
      \<or> \<not> has_read_priv h u t None)"

text \<open>Lines 126 to 137: the user selects existing tasks.\<close>

definition select_existing_tasks ::
  "host \<Rightarrow> db \<Rightarrow> user_id \<Rightarrow> question \<Rightarrow> string \<Rightarrow> exc + task list" where
  "select_existing_tasks h d u q s =
     (case get_tasks h d (split_comma s) of
        Inl e \<Rightarrow> Inl e
      | Inr ts \<Rightarrow>
         if list_ex (invalid_task h u q) ts then Inl (ValueError ''invalid task ID'')
         else if spec_type q = ''module'' \<and> length ts \<noteq> 1
           then Inl (ValueError ''did not provide exactly one task ID'')
         else Inr ts)"

text \<open>
  Lines 106 to 150: what is handed to \<^verbatim>\<open>save_answer\<close>, the database after a task
  was created, and where the response redirects to.
\<close>

record answer_source =
  src_db :: db
  src_value :: pyvalue
  src_answered_by_tasks :: "task list"
  src_answered_by_file :: pyvalue
  src_redirect_to :: string

definition answer_sources ::
  "host \<Rightarrow> db \<Rightarrow> question_request \<Rightarrow> task \<Rightarrow> question \<Rightarrow> pyvalue \<Rightarrow> bool \<Rightarrow> exc + answer_source" where
  "answer_sources h d r tk q v is_cleared =
     (if (spec_type q = ''module'' \<or> spec_type q = ''module-set'') \<and> \<not> is_cleared then
        (if v = PStr ''__new'' then
           (case answer_type_module q of
              None \<Rightarrow> Inl AttributeError
            | Some m \<Rightarrow>
               (let (t, d') = Task_create d (nq_user r) (task_project tk) m
                in Inr \<lparr>src_db = d', src_value = PNone, src_answered_by_tasks = [t],
                        src_answered_by_file = PNone, src_redirect_to = get_absolute_url h t\<rparr>))
         else if v = PNone then
           Inr \<lparr>src_db = d, src_value = PNone, src_answered_by_tasks = [],
                src_answered_by_file = PNone, src_redirect_to = nq_path r\<rparr>
         else (case v of
                 PStr s \<Rightarrow>
                   (case select_existing_tasks h d (nq_user r) q s of
                      Inl e \<Rightarrow> Inl e
                    | Inr ts \<Rightarrow>
                       Inr \<lparr>src_db = d, src_value = PNone, src_answered_by_tasks = ts,
                            src_answered_by_file = PNone, src_redirect_to = nq_path r\<rparr>)
               | _ \<Rightarrow> Inl AttributeError))
      else if spec_type q = ''file'' \<and> \<not> is_cleared then
        Inr \<lparr>src_db = d, src_value = PNone, src_answered_by_tasks = [],
             src_answered_by_file = v, src_redirect_to = nq_path r\<rparr>
      else
        Inr \<lparr>src_db = d, src_value = v, src_answered_by_tasks = [],
             src_answered_by_file = PNone, src_redirect_to = nq_path r\<rparr>)"

text \<open>
  Lines 152 to 169: clear or save the answer, and classify what happened for the
  instrumentation event.
\<close>

definition store_answer ::
  "db \<Rightarrow> task_answer \<Rightarrow> question_request \<Rightarrow> pyvalue \<Rightarrow> task list \<Rightarrow> pyvalue \<Rightarrow> bool \<Rightarrow> string \<times> db" where
  "store_answer d a r v ts f is_cleared =
     (if is_cleared then (''clear'', clear_answer d a (nq_user r))
      else
        (let had_answer = has_answer d a;
             (changed, d') = save_answer d a v (map task_id ts) f (nq_user r)
         in if changed then
              (if nq_post_method r = Some ''skip'' then (''skip'', d')
               else if had_answer then (''change'', d')
               else (''answer'', d'))
            else (''keep'', d')))"

text \<open>Lines 171 to 194: the instrumentation event of the request.\<close>

definition answer_event ::
  "db \<Rightarrow> question_request \<Rightarrow> task \<Rightarrow> question \<Rightarrow> task_answer \<Rightarrow> string \<Rightarrow> pyvalue
     \<Rightarrow> instrumentation_event" where
  "answer_event d r tk q a ty v =
     \<lparr>ev_user = nq_user r,
      ev_event_type = ''task-question-'' @ ty,
      ev_event_value = time_since_first_view d (nq_user r) (task_id tk) (q_id q) (nq_now r),
      ev_event_time = nq_now r,
      ev_module = Some (task_module tk),
      ev_question = Some (q_id q),
      ev_project = Some (task_project tk),
      ev_task = Some (task_id tk),
      ev_answer = Some (ta_id a),
      ev_extra = Some v\<rparr>"

text \<open>Lines 100 to 197, once the value is known.\<close>

definition save_and_respond ::
  "host \<Rightarrow> db \<Rightarrow> question_request \<Rightarrow> task \<Rightarrow> question \<Rightarrow> pyvalue \<Rightarrow> bool \<Rightarrow> response \<times> db" where
  "save_and_respond h d r tk q v is_cleared =
     (let (a, d1) = get_or_create d (task_id tk) (q_id q)
      in case answer_sources h d1 r tk q v is_cleared of
           Inl e \<Rightarrow> (Raised e, d1)
         | Inr src \<Rightarrow>
            (let (ty, d2) = store_answer (src_db src) a r (src_value src)
                              (src_answered_by_tasks src) (src_answered_by_file src) is_cleared;
                 ev = answer_event d2 r tk q a ty (src_value src)
             in (JsonOk (src_redirect_to src), d2\<lparr>events := events d2 @ [ev]\<rparr>)))"

text \<open>
  \<^verbatim>\<open>next_question\<close> for a request whose method is POST (lines 28 to 197);
  \<^verbatim>\<open>@login_required\<close> sends a user who is not logged in to the login page. The view
  opens no transaction: each ORM call writes on its own, so an exception that escapes
  leaves the rows written before it.
\<close>

definition next_question_post :: "host \<Rightarrow> db \<Rightarrow> question_request \<Rightarrow> response \<times> db" where
  "next_question_post h d r =
     (if \<not> nq_authenticated r then (HttpResponseRedirect ''login'', d)
      else case get_task_in_org d (nq_taskid r) (nq_organization r) of
        None \<Rightarrow> (Http404, d)
      | Some tk \<Rightarrow>
         (case get_answers h d tk of
            Inl e \<Rightarrow> (Raised e, d)
          | Inr answered \<Rightarrow>
             if \<not> has_write_priv h (nq_user r) tk None then (HttpResponseForbidden, d)
             else (case get_question h d tk (nq_question r) of
                Inl e \<Rightarrow> (Raised e, d)
              | Inr q \<Rightarrow>
                 (case read_value h q answered r of
                    Respond resp \<Rightarrow> (resp, d)
                  | Proceed v is_cleared \<Rightarrow> save_and_respond h d r tk q v is_cleared))))"

section \<open>Showing a question: the answer \<^verbatim>\<open>next_question\<close> displays\<close>

text \<open>
  Lines 306 to 312 of the GET branch, with \<^verbatim>\<open>taskq\<close> from line 213: a cleared
  answer is treated as if the question had not been answered.
\<close>

definition shown_answer :: "db \<Rightarrow> task \<Rightarrow> question \<Rightarrow> task_answer_history option" where
  "shown_answer d tk q =
     (case find_task_answer d (task_id tk) (q_id q) of
        None \<Rightarrow> None
      | Some taskq \<Rightarrow>
         (case get_current_answer d taskq of
            None \<Rightarrow> None
          | Some answer \<Rightarrow> if cleared answer then None else Some answer))"

section \<open>The task graph\<close>

text \<open>
  A task is a child of another when the current, uncleared answer to one of the
  other's questions names it in \<^verbatim>\<open>answered_by_task\<close>; an ancestor is a parent of a
  parent, and so on.
\<close>

definition child_links :: "db \<Rightarrow> (task_id \<times> task_id) list" where
  "child_links d =
     concat (map (\<lambda>a. case get_current_answer d a of
                         None \<Rightarrow> []
                       | Some e \<Rightarrow> if cleared e then []
                                   else map (\<lambda>c. (ta_task a, c)) (answered_by_task e))
               (task_answers d))"

definition is_ancestor :: "db \<Rightarrow> task_id \<Rightarrow> task_id \<Rightarrow> bool" where
  "is_ancestor d a b = ((a, b) \<in> (set (child_links d))\<^sup>+)"

section \<open>Rendering output documents\<close>











section \<open>A small database to run the views on\<close>

text \<open>
  Two modules whose questions name each other as answer type, a parent task whose
  question \<open>10\<close> is answered by the child task, and one user, \<open>7\<close>, who may read and
  write every task.
\<close>

definition demo_int :: "string \<Rightarrow> int option" where
  "demo_int s =
     (if s = ''1'' then Some 1 else if s = ''2'' then Some 2 else if s = ''3'' then Some 3
      else if s = ''10'' then Some 10 else if s = ''11'' then Some 11
      else if s = ''12'' then Some 12 else if s = ''13'' then Some 13
      else if s = ''20'' then Some 20 else None)"

definition demo_host :: host where
  "demo_host =
     \<lparr>has_read_priv = (\<lambda>u t a. u = 7),
      has_write_priv = (\<lambda>u t a. u = 7),
      get_answers = (\<lambda>d t. Inr \<lparr>as_dict = [], can_answer = [], was_imputed = []\<rparr>),
      parse = (\<lambda>q raw. case raw of
                 RawFile f \<Rightarrow> Inr (PFile f)
               | RawList l \<Rightarrow> (case l of [s] \<Rightarrow> Inr (PStr s)
                                | _ \<Rightarrow> Inl (ValueError ''invalid input''))),
      validate = (\<lambda>q v. Inr v),
      run_external_function = (\<lambda>q a. Inr PNone),
      get_absolute_url = (\<lambda>t. ''/tasks/'' @ task_title t),
      py_int = demo_int\<rparr>"

definition demo_parent :: task where
  "demo_parent = \<lparr>task_id = 1, task_module = 1, task_project = 1, task_editor = 7,
     task_title = ''parent'', deleted_at = None\<rparr>"

definition demo_child :: task where
  "demo_child = \<lparr>task_id = 2, task_module = 2, task_project = 1, task_editor = 7,
     task_title = ''child'', deleted_at = None\<rparr>"

definition demo_q_sub :: question where
  "demo_q_sub = \<lparr>q_id = 10, q_module = 1, q_key = ''sub'', spec_type = ''module'',
     answer_type_module = Some \<lparr>module_id = 2, module_title = ''Child module''\<rparr>\<rparr>"

definition demo_q_name :: question where
  "demo_q_name = \<lparr>q_id = 11, q_module = 1, q_key = ''name'', spec_type = ''text'',
     answer_type_module = None\<rparr>"

definition demo_q_back :: question where
  "demo_q_back = \<lparr>q_id = 20, q_module = 2, q_key = ''back'', spec_type = ''module'',
     answer_type_module = Some \<lparr>module_id = 1, module_title = ''Parent module''\<rparr>\<rparr>"

definition demo_db :: db where
  "demo_db =
     \<lparr>projects = [\<lparr>project_id = 1, project_organization = 5\<rparr>],
      questions = [demo_q_sub, demo_q_name, demo_q_back],
      tasks = [demo_parent, demo_child],
      task_answers = [\<lparr>ta_id = 1, ta_task = 1, ta_question = 10\<rparr>],
      task_answer_histories =
        [\<lparr>taskanswer = 1, stored_value = PNone, answered_by_task = [2],
          answered_by_file = PNone, cleared = False, answered_by = 7\<rparr>],
      events = []\<rparr>"

definition demo_delete :: state_request where
  "demo_delete = \<lparr>sr_authenticated = True, sr_method = ''POST'', sr_user = 7,
     sr_organization = 5, sr_id = Some ''2'', sr_state = Some ''delete'', sr_now = 100\<rparr>"

definition demo_interaction :: interaction_request where
  "demo_interaction = \<lparr>ir_authenticated = True, ir_method = ''POST'', ir_user = 7,
     ir_organization = 5, ir_task = Some ''1'', ir_question = Some ''11'', ir_now = 100\<rparr>"

definition demo_skip :: question_request where
  "demo_skip = \<lparr>nq_authenticated = True, nq_user = 7, nq_organization = 5,
     nq_path = ''/tasks/parent'', nq_taskid = 1, nq_question = Some ''11'',
     nq_post_method = Some ''skip'', nq_value = [], nq_file = None, nq_now = 100\<rparr>"

definition demo_save :: question_request where
  "demo_save = demo_skip\<lparr>nq_post_method := Some ''save'', nq_value := [''yes'']\<rparr>"

definition demo_link :: question_request where
  "demo_link = \<lparr>nq_authenticated = True, nq_user = 7, nq_organization = 5,
     nq_path = ''/tasks/child'', nq_taskid = 2, nq_question = Some ''20'',
     nq_post_method = Some ''save'', nq_value = [''1''], nq_file = None, nq_now = 100\<rparr>"

definition demo_clear :: question_request where
  "demo_clear = demo_skip\<lparr>nq_question := Some ''10'', nq_post_method := Some ''clear''\<rparr>"


definition demo_skipped_db :: db where
  "demo_skipped_db = demo_db
     \<lparr>task_answers := [\<lparr>ta_id = 1, ta_task = 1, ta_question = 10\<rparr>,
                       \<lparr>ta_id = 2, ta_task = 1, ta_question = 11\<rparr>],
      task_answer_histories :=
        [\<lparr>taskanswer = 1, stored_value = PNone, answered_by_task = [2],
          answered_by_file = PNone, cleared = False, answered_by = 7\<rparr>,
         \<lparr>taskanswer = 2, stored_value = PNone, answered_by_task = [],
          answered_by_file = PNone, cleared = False, answered_by = 7\<rparr>],
      events :=
        [\<lparr>ev_user = 7, ev_event_type = ''task-question-skip'',
          ev_event_value = None, ev_event_time = 100, ev_module = Some 1,
          ev_question = Some 11, ev_project = Some 1, ev_task = Some 1,
          ev_answer = Some 2, ev_extra = Some PNone\<rparr>]\<rparr>"

definition demo_cleared_db :: db where
  "demo_cleared_db = demo_db
     \<lparr>task_answer_histories :=
        [\<lparr>taskanswer = 1, stored_value = PNone, answered_by_task = [2],
          answered_by_file = PNone, cleared = False, answered_by = 7\<rparr>,
         \<lparr>taskanswer = 1, stored_value = PNone, answered_by_task = [],
          answered_by_file = PNone, cleared = True, answered_by = 7\<rparr>],
      events :=
        [\<lparr>ev_user = 7, ev_event_type = ''task-question-clear'',
          ev_event_value = None, ev_event_time = 100, ev_module = Some 1,
          ev_question = Some 10, ev_project = Some 1, ev_task = Some 1,
          ev_answer = Some 1, ev_extra = Some PNone\<rparr>]\<rparr>"

definition demo_linked_db :: db where
  "demo_linked_db = demo_db
     \<lparr>task_answers := [\<lparr>ta_id = 1, ta_task = 1, ta_question = 10\<rparr>,
                       \<lparr>ta_id = 2, ta_task = 2, ta_question = 20\<rparr>],
      task_answer_histories :=
        [\<lparr>taskanswer = 1, stored_value = PNone, answered_by_task = [2],
          answered_by_file = PNone, cleared = False, answered_by = 7\<rparr>,
         \<lparr>taskanswer = 2, stored_value = PNone, answered_by_task = [1],
          answered_by_file = PNone, cleared = False, answered_by = 7\<rparr>],
      events :=
        [\<lparr>ev_user = 7, ev_event_type = ''task-question-answer'',
          ev_event_value = None, ev_event_time = 100, ev_module = Some 2,
          ev_question = Some 20, ev_project = Some 1, ev_task = Some 2,
          ev_answer = Some 2, ev_extra = Some PNone\<rparr>]\<rparr>"

definition demo_saved_db :: db where
  "demo_saved_db = demo_db
     \<lparr>task_answers := [\<lparr>ta_id = 1, ta_task = 1, ta_question = 10\<rparr>,
                       \<lparr>ta_id = 2, ta_task = 1, ta_question = 11\<rparr>],
      task_answer_histories :=
        [\<lparr>taskanswer = 1, stored_value = PNone, answered_by_task = [2],
          answered_by_file = PNone, cleared = False, answered_by = 7\<rparr>,
         \<lparr>taskanswer = 2, stored_value = PStr ''yes'', answered_by_task = [],
          answered_by_file = PNone, cleared = False, answered_by = 7\<rparr>],
      events :=
        [\<lparr>ev_user = 7, ev_event_type = ''task-question-answer'',
          ev_event_value = None, ev_event_time = 100, ev_module = Some 1,
          ev_question = Some 11, ev_project = Some 1, ev_task = Some 1,
          ev_answer = Some 2, ev_extra = Some (PStr ''yes'')\<rparr>]\<rparr>"




text \<open>
  A second database: the parent task has a question of type module-set, answered by the
  tasks \<open>2\<close> and \<open>3\<close>, and a question of type module that declares no answer type.
\<close>

definition demo_third :: task where
  "demo_third = \<lparr>task_id = 3, task_module = 2, task_project = 1, task_editor = 7,
     task_title = ''third'', deleted_at = None\<rparr>"

definition demo_q_subs :: question where
  "demo_q_subs = \<lparr>q_id = 12, q_module = 1, q_key = ''subs'', spec_type = ''module-set'',
     answer_type_module = Some \<lparr>module_id = 2, module_title = ''Child module''\<rparr>\<rparr>"

definition demo_q_loose :: question where
  "demo_q_loose = \<lparr>q_id = 13, q_module = 1, q_key = ''loose'', spec_type = ''module'',
     answer_type_module = None\<rparr>"

definition demo_set_db :: db where
  "demo_set_db =
     \<lparr>projects = [\<lparr>project_id = 1, project_organization = 5\<rparr>],
      questions = [demo_q_sub, demo_q_name, demo_q_back, demo_q_subs, demo_q_loose],
      tasks = [demo_parent, demo_child, demo_third],
      task_answers = [\<lparr>ta_id = 1, ta_task = 1, ta_question = 12\<rparr>],
      task_answer_histories =
        [\<lparr>taskanswer = 1, stored_value = PNone, answered_by_task = [2, 3],
          answered_by_file = PNone, cleared = False, answered_by = 7\<rparr>],
      events = []\<rparr>"

definition demo_relink :: question_request where
  "demo_relink = demo_skip\<lparr>nq_question := Some ''12'', nq_post_method := Some ''save'',
     nq_value := [''3,2'']\<rparr>"







section \<open>Properties\<close>

subsection \<open>Deleting and undeleting a task\<close>


lemma find_task_id: "find (\<lambda>t. task_id t = i \<and> P t) ts = Some t \<Longrightarrow> task_id t = i"
  by (auto simp: find_Some_iff)

lemma get_task_in_org_id: "get_task_in_org d i org = Some t \<Longrightarrow> task_id t = i"
  unfolding get_task_in_org_def by (rule find_task_id)

lemma save_deleted_at_frame:
  "projects (save_deleted_at d i v) = projects d"
  "questions (save_deleted_at d i v) = questions d"
  "task_answers (save_deleted_at d i v) = task_answers d"
  "task_answer_histories (save_deleted_at d i v) = task_answer_histories d"
  "events (save_deleted_at d i v) = events d"
  by (simp_all add: save_deleted_at_def)

lemma save_deleted_at_other_fields:
  "map (\<lambda>t. t\<lparr>deleted_at := None\<rparr>) (tasks (save_deleted_at d i v)) =
   map (\<lambda>t. t\<lparr>deleted_at := None\<rparr>) (tasks d)"
proof -
  have "(\<lambda>t. (if task_id t = i then t\<lparr>deleted_at := v\<rparr> else t)\<lparr>deleted_at := None\<rparr>) =
        (\<lambda>t. t\<lparr>deleted_at := None\<rparr>)"
    by (rule ext) simp
  then show ?thesis by (simp add: save_deleted_at_def comp_def)
qed

lemma save_deleted_at_value:
  assumes "t \<in> set (tasks (save_deleted_at d i v))" and "task_id t = i"
  shows "deleted_at t = v"
proof -
  have "t \<in> (\<lambda>x. if task_id x = i then x\<lparr>deleted_at := v\<rparr> else x) ` set (tasks d)"
    using assms(1) by (simp add: save_deleted_at_def)
  then obtain x where x: "t = (if task_id x = i then x\<lparr>deleted_at := v\<rparr> else x)"
    by (rule imageE)
  show ?thesis
  proof (cases "task_id x = i")
    case True
    then show ?thesis using x by simp
  next
    case False
    then have "t = x" using x by simp
    then show ?thesis using False assms(2) by simp
  qed
qed

lemma save_deleted_at_twice:
  "save_deleted_at (save_deleted_at d i v) i w = save_deleted_at d i w"
proof -
  have "(\<lambda>t. if task_id (if task_id t = i then t\<lparr>deleted_at := v\<rparr> else t) = i
             then (if task_id t = i then t\<lparr>deleted_at := v\<rparr> else t)\<lparr>deleted_at := w\<rparr>
             else (if task_id t = i then t\<lparr>deleted_at := v\<rparr> else t)) =
        (\<lambda>t. if task_id t = i then t\<lparr>deleted_at := w\<rparr> else t)"
    by (rule ext) simp
  then show ?thesis by (simp add: save_deleted_at_def comp_def)
qed

lemma save_deleted_at_same:
  assumes "\<forall>t\<in>set (tasks d). task_id t = i \<longrightarrow> deleted_at t = v"
  shows "save_deleted_at d i v = d"
proof -
  have "map (\<lambda>t. if task_id t = i then t\<lparr>deleted_at := v\<rparr> else t) (tasks d) = tasks d"
  proof (rule map_idI)
    fix t assume "t \<in> set (tasks d)"
    then have "task_id t = i \<longrightarrow> deleted_at t = v" using assms by blast
    then show "(if task_id t = i then t\<lparr>deleted_at := v\<rparr> else t) = t" by (cases "task_id t = i") simp_all
  qed
  then show ?thesis by (simp add: save_deleted_at_def)
qed


lemma change_task_state_unchanged_or_saved:
  assumes "change_task_state h d r = (resp, d')"
  shows "d' = d \<or> (\<exists>i v. d' = save_deleted_at d i v)"
proof (cases "sr_id r")
  case None
  then show ?thesis using assms by (simp add: change_task_state_def split: if_splits)
next
  case (Some s)
  note s = this
  show ?thesis
  proof (cases "py_int h s")
    case None
    then show ?thesis using assms s by (simp add: change_task_state_def split: if_splits)
  next
    case (Some i)
    note i = this
    show ?thesis
    proof (cases "get_task_in_org d i (sr_organization r)")
      case None
      then show ?thesis using assms s i by (simp add: change_task_state_def split: if_splits)
    next
      case (Some t)
      then show ?thesis using assms s i
        by (cases "sr_state r") (auto simp: change_task_state_def split: if_splits)
    qed
  qed
qed

lemma change_task_state_frame:
  assumes "change_task_state h d r = (resp, d')"
  shows "projects d' = projects d \<and> questions d' = questions d \<and>
         task_answers d' = task_answers d \<and>
          task_answer_histories d' = task_answer_histories d \<and> events d' = events d \<and>
         map (\<lambda>t. t\<lparr>deleted_at := None\<rparr>) (tasks d') = map (\<lambda>t. t\<lparr>deleted_at := None\<rparr>) (tasks d)"
proof -
  from change_task_state_unchanged_or_saved [OF assms]
  consider "d' = d" | i v where "d' = save_deleted_at d i v" by blast
  then show ?thesis
  proof cases
    case 1
    then show ?thesis by simp
  next
    case 2
    then show ?thesis
      by (simp only: save_deleted_at_frame save_deleted_at_other_fields)
  qed
qed

lemma change_task_state_ok:
  assumes "change_task_state h d r = (HttpResponse ''ok'', d')"
      and "sr_id r = Some s" and "py_int h s = Some i" and "sr_state r = Some st"
  shows "(st = ''delete'' \<and> d' = save_deleted_at d i (Some (sr_now r))) \<or>
         (st = ''undelete'' \<and> d' = save_deleted_at d i None)"
proof (cases "get_task_in_org d i (sr_organization r)")
  case None
  then show ?thesis using assms by (simp add: change_task_state_def split: if_splits)
next
  case (Some t)
  then have ti: "task_id t = i" by (rule get_task_in_org_id)
  have auth: "sr_authenticated r" "sr_method r = ''POST''" "has_write_priv h (sr_user r) t (Some True)"
    using assms Some by (simp_all add: change_task_state_def split: if_splits)
  have eq: "change_task_state h d r =
       (if st = ''delete''
          then (HttpResponse ''ok'', save_deleted_at d (task_id t) (Some (sr_now r)))
        else if st = ''undelete''
          then (HttpResponse ''ok'', save_deleted_at d (task_id t) None)
        else (HttpResponseForbidden, d))"
    using auth assms(2-4) Some by (simp add: change_task_state_def)
  show ?thesis
  proof (cases "st = ''delete''")
    case True
    then show ?thesis using assms(1) ti unfolding eq by simp
  next
    case False
    note nd = this
    show ?thesis
    proof (cases "st = ''undelete''")
      case True
      then show ?thesis using assms(1) ti unfolding eq by simp
    next
      case False
      then show ?thesis using assms(1) nd unfolding eq by simp
    qed
  qed
qed


lemma demo_delete_run:
  "change_task_state demo_host demo_db demo_delete =
     (HttpResponse ''ok'', demo_db\<lparr>tasks := [demo_parent, demo_child\<lparr>deleted_at := Some 100\<rparr>]\<rparr>)"
  by (simp add: change_task_state_def demo_delete_def demo_host_def demo_int_def demo_db_def
      get_task_in_org_def project_org_def demo_parent_def demo_child_def save_deleted_at_def)

lemma demo_undelete_run:
  "change_task_state demo_host (demo_db\<lparr>tasks := [demo_parent, demo_child\<lparr>deleted_at := Some 100\<rparr>]\<rparr>)
       (demo_delete\<lparr>sr_state := Some ''undelete'', sr_now := 200\<rparr>) =
     (HttpResponse ''ok'', demo_db)"
  by (simp add: change_task_state_def demo_delete_def demo_host_def demo_int_def demo_db_def
      get_task_in_org_def project_org_def demo_parent_def demo_child_def save_deleted_at_def)


text \<open>
  Claim C9. Deleting a task is a soft, reversible flag. Whatever a request to
  \<^verbatim>\<open>change_task_state\<close> does, the answers, their histories, the events, the questions and
  the projects stay as they are, no task row is added or removed, and no field of a task
  other than \<open>deleted_at\<close> changes. An accepted delete sets \<open>deleted_at\<close> of the task
  to the time of the request, an accepted undelete after it sets it back to \<open>None\<close>, and
  if the task was not deleted before, the database is then what it was.
\<close>

theorem task_delete_soft_reversible:
  assumes del: "change_task_state h d r1 = (resp1, d1)"
      and undel: "change_task_state h d1 r2 = (resp2, d2)"
  shows "(task_answers d1 = task_answers d \<and>
          task_answer_histories d1 = task_answer_histories d \<and> events d1 = events d \<and>
          projects d1 = projects d \<and> questions d1 = questions d \<and>
          map (\<lambda>t. t\<lparr>deleted_at := None\<rparr>) (tasks d1) = map (\<lambda>t. t\<lparr>deleted_at := None\<rparr>) (tasks d)) \<and>
         (task_answers d2 = task_answers d \<and>
          task_answer_histories d2 = task_answer_histories d \<and> events d2 = events d \<and>
          projects d2 = projects d \<and> questions d2 = questions d \<and>
          map (\<lambda>t. t\<lparr>deleted_at := None\<rparr>) (tasks d2) = map (\<lambda>t. t\<lparr>deleted_at := None\<rparr>) (tasks d)) \<and>
         (resp1 = HttpResponse ''ok'' \<and> sr_state r1 = Some ''delete'' \<and>
          resp2 = HttpResponse ''ok'' \<and> sr_state r2 = Some ''undelete'' \<and>
          sr_id r1 = Some s \<and> sr_id r2 = Some s \<and> py_int h s = Some i \<longrightarrow>
            d1 = save_deleted_at d i (Some (sr_now r1)) \<and>
            (\<forall>t\<in>set (tasks d1). task_id t = i \<longrightarrow> deleted_at t = Some (sr_now r1)) \<and>
            (\<forall>t\<in>set (tasks d2). task_id t = i \<longrightarrow> deleted_at t = None) \<and>
            ((\<forall>t\<in>set (tasks d). task_id t = i \<longrightarrow> deleted_at t = None) \<longrightarrow> d2 = d))"
proof -
  note f1 = change_task_state_frame [OF del]
  note f2 = change_task_state_frame [OF undel]
  have rt: "d1 = save_deleted_at d i (Some (sr_now r1)) \<and>
            (\<forall>t\<in>set (tasks d1). task_id t = i \<longrightarrow> deleted_at t = Some (sr_now r1)) \<and>
            (\<forall>t\<in>set (tasks d2). task_id t = i \<longrightarrow> deleted_at t = None) \<and>
            ((\<forall>t\<in>set (tasks d). task_id t = i \<longrightarrow> deleted_at t = None) \<longrightarrow> d2 = d)"
    if ok: "resp1 = HttpResponse ''ok''" "sr_state r1 = Some ''delete''"
           "resp2 = HttpResponse ''ok''" "sr_state r2 = Some ''undelete''"
           "sr_id r1 = Some s" "sr_id r2 = Some s" "py_int h s = Some i"
  proof -
    have e1: "d1 = save_deleted_at d i (Some (sr_now r1))"
      using change_task_state_ok [OF del [unfolded ok(1)] ok(5) ok(7) ok(2)] by simp
    have e2: "d2 = save_deleted_at d1 i None"
      using change_task_state_ok [OF undel [unfolded ok(3)] ok(6) ok(7) ok(4)] by simp
    have e3: "d2 = save_deleted_at d i None"
      unfolding e2 e1 by (rule save_deleted_at_twice)
    have v1: "\<forall>t\<in>set (tasks d1). task_id t = i \<longrightarrow> deleted_at t = Some (sr_now r1)"
      unfolding e1 using save_deleted_at_value by blast
    have v2: "\<forall>t\<in>set (tasks d2). task_id t = i \<longrightarrow> deleted_at t = None"
      unfolding e3 using save_deleted_at_value by blast
    have v3: "(\<forall>t\<in>set (tasks d). task_id t = i \<longrightarrow> deleted_at t = None) \<longrightarrow> d2 = d"
      unfolding e3 using save_deleted_at_same by blast
    show ?thesis using e1 v1 v2 v3 by blast
  qed
  from f1 have g1: "task_answers d1 = task_answers d \<and>
          task_answer_histories d1 = task_answer_histories d \<and> events d1 = events d \<and>
          projects d1 = projects d \<and> questions d1 = questions d \<and>
          map (\<lambda>t. t\<lparr>deleted_at := None\<rparr>) (tasks d1) = map (\<lambda>t. t\<lparr>deleted_at := None\<rparr>) (tasks d)"
    by blast
  from f1 f2 have g2: "task_answers d2 = task_answers d \<and>
          task_answer_histories d2 = task_answer_histories d \<and> events d2 = events d \<and>
          projects d2 = projects d \<and> questions d2 = questions d \<and>
          map (\<lambda>t. t\<lparr>deleted_at := None\<rparr>) (tasks d2) = map (\<lambda>t. t\<lparr>deleted_at := None\<rparr>) (tasks d)"
    by simp
  show ?thesis using g1 g2 rt by blast
qed

theorem task_delete_soft_reversible_witness:
  "change_task_state demo_host demo_db demo_delete =
     (HttpResponse ''ok'', demo_db\<lparr>tasks := [demo_parent, demo_child\<lparr>deleted_at := Some 100\<rparr>]\<rparr>) \<and>
   change_task_state demo_host (demo_db\<lparr>tasks := [demo_parent, demo_child\<lparr>deleted_at := Some 100\<rparr>]\<rparr>)
       (demo_delete\<lparr>sr_state := Some ''undelete'', sr_now := 200\<rparr>) =
     (HttpResponse ''ok'', demo_db) \<and>
   map deleted_at (tasks demo_db) = [None, None] \<and>
   demo_db\<lparr>tasks := [demo_parent, demo_child\<lparr>deleted_at := Some 100\<rparr>]\<rparr> =
     save_deleted_at demo_db 2 (Some 100) \<and>
   task_answers (demo_db\<lparr>tasks := [demo_parent, demo_child\<lparr>deleted_at := Some 100\<rparr>]\<rparr>) =
     task_answers demo_db"
proof -
  note T = task_delete_soft_reversible [OF demo_delete_run demo_undelete_run, of "''2''" 2]
  have prem: "HttpResponse ''ok'' = HttpResponse ''ok'' \<and> sr_state demo_delete = Some ''delete'' \<and>
      HttpResponse ''ok'' = HttpResponse ''ok'' \<and>
      sr_state (demo_delete\<lparr>sr_state := Some ''undelete'', sr_now := 200\<rparr>) = Some ''undelete'' \<and>
      sr_id demo_delete = Some ''2'' \<and>
      sr_id (demo_delete\<lparr>sr_state := Some ''undelete'', sr_now := 200\<rparr>) = Some ''2'' \<and>
      py_int demo_host ''2'' = Some 2"
    by (simp add: demo_delete_def demo_host_def demo_int_def)
  have now: "sr_now demo_delete = 100" by (simp add: demo_delete_def)
  have orig: "map deleted_at (tasks demo_db) = [None, None]"
    by (simp add: demo_db_def demo_parent_def demo_child_def)
  from T prem have c4: "demo_db\<lparr>tasks := [demo_parent, demo_child\<lparr>deleted_at := Some 100\<rparr>]\<rparr> =
     save_deleted_at demo_db 2 (Some (sr_now demo_delete))"
    by blast
  from T have c5: "task_answers (demo_db\<lparr>tasks := [demo_parent, demo_child\<lparr>deleted_at := Some 100\<rparr>]\<rparr>) =
     task_answers demo_db"
    by blast
  show ?thesis
    using demo_delete_run demo_undelete_run orig c4 [unfolded now] c5 by blast
qed

subsection \<open>Recording the first interaction\<close>

lemma get_task_in_org_events [simp]:
  "get_task_in_org (d\<lparr>events := es\<rparr>) i org = get_task_in_org d i org"
  by (simp add: get_task_in_org_def project_org_def)

lemma get_question_events [simp]:
  "get_question h (d\<lparr>events := es\<rparr>) t p = get_question h d t p"
  by (simp add: get_question_def split: option.splits)

lemma find_task_answer_events [simp]:
  "find_task_answer (d\<lparr>events := es\<rparr>) t q = find_task_answer d t q"
  by (simp add: find_task_answer_def)

lemma filter_events_append:
  "filter_events (d\<lparr>events := events d @ [e]\<rparr>) u ty t q =
     filter_events d u ty t q @
       (if ev_user e = u \<and> ev_event_type e = ty \<and> ev_task e = Some t \<and> ev_question e = Some q
        then [e] else [])"
  by (simp add: filter_events_def)

lemma record_interaction_resolved:
  assumes "ir_authenticated r" and "ir_method r = ''POST''" and "ir_task r = Some s"
      and "py_int h s = Some i" and "get_task_in_org d i (ir_organization r) = Some tk"
      and "has_read_priv h (ir_user r) tk None"
      and "get_question h d tk (ir_question r) = Inr qu"
  shows "instrumentation_record_interaction h d r =
     (if filter_events d (ir_user r) ''task-question-interact-first'' (task_id tk) (q_id qu) \<noteq> []
      then (HttpResponse ''ok'', d)
      else (HttpResponse ''ok'', d\<lparr>events := events d @ [first_interaction_event d r tk qu]\<rparr>))"
  using assms
  by (simp add: instrumentation_record_interaction_def)

lemma record_interaction_unresolved:
  assumes "\<not> (\<exists>s i tk qu. ir_authenticated r \<and> ir_method r = ''POST'' \<and> ir_task r = Some s
      \<and> py_int h s = Some i \<and> get_task_in_org d i (ir_organization r) = Some tk
      \<and> has_read_priv h (ir_user r) tk None
      \<and> get_question h d tk (ir_question r) = Inr qu)"
  shows "snd (instrumentation_record_interaction h d r) = d"
proof (cases "ir_task r")
  case None
  then show ?thesis by (simp add: instrumentation_record_interaction_def)
next
  case (Some s)
  note s = this
  show ?thesis
  proof (cases "py_int h s")
    case None
    then show ?thesis using s by (simp add: instrumentation_record_interaction_def)
  next
    case (Some i)
    note i = this
    show ?thesis
    proof (cases "get_task_in_org d i (ir_organization r)")
      case None
      then show ?thesis using s i by (simp add: instrumentation_record_interaction_def)
    next
      case (Some tk)
      note tk = this
      show ?thesis
      proof (cases "get_question h d tk (ir_question r)")
        case (Inl e)
        then show ?thesis using s i tk
          by (cases e) (simp_all add: instrumentation_record_interaction_def)
      next
        case (Inr qu)
        then have "\<not> (ir_authenticated r \<and> ir_method r = ''POST'' \<and> has_read_priv h (ir_user r) tk None)"
          using assms s i tk by blast
        then show ?thesis using s i tk Inr
          by (auto simp add: instrumentation_record_interaction_def)
      qed
    qed
  qed
qed


lemma first_interaction_event_keys:
  "ev_user (first_interaction_event d r t q) = ir_user r"
  "ev_event_type (first_interaction_event d r t q) = ''task-question-interact-first''"
  "ev_task (first_interaction_event d r t q) = Some (task_id t)"
  "ev_question (first_interaction_event d r t q) = Some (q_id q)"
  by (simp_all add: first_interaction_event_def)

lemma record_interaction_cases:
  assumes "instrumentation_record_interaction h d r = (resp, d')"
  shows "d' = d \<or>
     (\<exists>tk qu. filter_events d (ir_user r) ''task-question-interact-first'' (task_id tk) (q_id qu) = []
        \<and> d' = d\<lparr>events := events d @ [first_interaction_event d r tk qu]\<rparr>)"
proof (cases "\<exists>s i tk qu. ir_authenticated r \<and> ir_method r = ''POST'' \<and> ir_task r = Some s
      \<and> py_int h s = Some i \<and> get_task_in_org d i (ir_organization r) = Some tk
      \<and> has_read_priv h (ir_user r) tk None
      \<and> get_question h d tk (ir_question r) = Inr qu")
  case False
  from record_interaction_unresolved [OF False] assms show ?thesis by simp
next
  case True
  then obtain s i tk qu where res: "ir_authenticated r" "ir_method r = ''POST''" "ir_task r = Some s"
      "py_int h s = Some i" "get_task_in_org d i (ir_organization r) = Some tk"
      "has_read_priv h (ir_user r) tk None" "get_question h d tk (ir_question r) = Inr qu"
    by blast
  note eq = record_interaction_resolved [OF res]
  show ?thesis
  proof (cases "filter_events d (ir_user r) ''task-question-interact-first'' (task_id tk) (q_id qu) = []")
    case True
    with eq assms have "d' = d\<lparr>events := events d @ [first_interaction_event d r tk qu]\<rparr>" by simp
    with True show ?thesis by blast
  next
    case False
    with eq assms show ?thesis by simp
  qed
qed

lemma record_interaction_again:
  "snd (instrumentation_record_interaction h
          (snd (instrumentation_record_interaction h d r)) (r\<lparr>ir_now := n\<rparr>)) =
   snd (instrumentation_record_interaction h d r)"
proof (cases "\<exists>s i tk qu. ir_authenticated r \<and> ir_method r = ''POST'' \<and> ir_task r = Some s
      \<and> py_int h s = Some i \<and> get_task_in_org d i (ir_organization r) = Some tk
      \<and> has_read_priv h (ir_user r) tk None
      \<and> get_question h d tk (ir_question r) = Inr qu")
  case False
  have d1: "snd (instrumentation_record_interaction h d r) = d"
    by (rule record_interaction_unresolved [OF False])
  have "\<not> (\<exists>s i tk qu. ir_authenticated (r\<lparr>ir_now := n\<rparr>) \<and> ir_method (r\<lparr>ir_now := n\<rparr>) = ''POST''
      \<and> ir_task (r\<lparr>ir_now := n\<rparr>) = Some s
      \<and> py_int h s = Some i \<and> get_task_in_org d i (ir_organization (r\<lparr>ir_now := n\<rparr>)) = Some tk
      \<and> has_read_priv h (ir_user (r\<lparr>ir_now := n\<rparr>)) tk None
      \<and> get_question h d tk (ir_question (r\<lparr>ir_now := n\<rparr>)) = Inr qu)"
    using False by simp
  from record_interaction_unresolved [OF this] d1 show ?thesis by simp
next
  case True
  then obtain s i tk qu where res: "ir_authenticated r" "ir_method r = ''POST''" "ir_task r = Some s"
      "py_int h s = Some i" "get_task_in_org d i (ir_organization r) = Some tk"
      "has_read_priv h (ir_user r) tk None" "get_question h d tk (ir_question r) = Inr qu"
    by blast
  note eq = record_interaction_resolved [OF res]
  define d1 where "d1 = snd (instrumentation_record_interaction h d r)"
  have d1_cases: "d1 = d \<and> filter_events d (ir_user r) ''task-question-interact-first'' (task_id tk) (q_id qu) \<noteq> []
      \<or> d1 = d\<lparr>events := events d @ [first_interaction_event d r tk qu]\<rparr>"
    unfolding d1_def eq by simp
  have nonempty: "filter_events d1 (ir_user r) ''task-question-interact-first'' (task_id tk) (q_id qu) \<noteq> []"
    using d1_cases by (auto simp: filter_events_append first_interaction_event_keys)
  have same: "get_task_in_org d1 i (ir_organization r) = Some tk"
      "get_question h d1 tk (ir_question r) = Inr qu"
    using d1_cases res by auto
  have res': "ir_authenticated (r\<lparr>ir_now := n\<rparr>)" "ir_method (r\<lparr>ir_now := n\<rparr>) = ''POST''"
      "ir_task (r\<lparr>ir_now := n\<rparr>) = Some s" "py_int h s = Some i"
      "get_task_in_org d1 i (ir_organization (r\<lparr>ir_now := n\<rparr>)) = Some tk"
      "has_read_priv h (ir_user (r\<lparr>ir_now := n\<rparr>)) tk None"
      "get_question h d1 tk (ir_question (r\<lparr>ir_now := n\<rparr>)) = Inr qu"
    using res same by simp_all
  have "instrumentation_record_interaction h d1 (r\<lparr>ir_now := n\<rparr>) = (HttpResponse ''ok'', d1)"
    using record_interaction_resolved [OF res'] nonempty by simp
  then show ?thesis unfolding d1_def by simp
qed

text \<open>
  Claim C10. For every user, task and question, a request to
  \<^verbatim>\<open>instrumentation_record_interaction\<close> leaves the events of type
  \<^verbatim>\<open>task-question-interact-first\<close> of that triple as they are, or takes them from none
  to exactly one; so at most one such event per triple stays at most one. When the
  request resolves to a task and a question for which the user already has such an event,
  the response is ok and the database is unchanged, and repeating a request after it was
  served changes nothing.
\<close>

theorem first_interaction_recorded_once:
  assumes "instrumentation_record_interaction h d r = (resp, d')"
  shows "(filter_events d' u ''task-question-interact-first'' t q =
            filter_events d u ''task-question-interact-first'' t q
          \<or> filter_events d u ''task-question-interact-first'' t q = []
            \<and> length (filter_events d' u ''task-question-interact-first'' t q) = 1) \<and>
         (length (filter_events d u ''task-question-interact-first'' t q) \<le> 1 \<longrightarrow>
          length (filter_events d' u ''task-question-interact-first'' t q) \<le> 1) \<and>
         snd (instrumentation_record_interaction h d' (r\<lparr>ir_now := n\<rparr>)) = d' \<and>
         (ir_authenticated r \<and> ir_method r = ''POST'' \<and> ir_task r = Some s \<and> py_int h s = Some i \<and>
          get_task_in_org d i (ir_organization r) = Some tk \<and>
          has_read_priv h (ir_user r) tk None \<and>
          get_question h d tk (ir_question r) = Inr qu \<and>
          filter_events d (ir_user r) ''task-question-interact-first'' (task_id tk) (q_id qu) \<noteq> []
          \<longrightarrow> resp = HttpResponse ''ok'' \<and> d' = d)"
proof -
  have a: "filter_events d' u ''task-question-interact-first'' t q =
            filter_events d u ''task-question-interact-first'' t q
          \<or> filter_events d u ''task-question-interact-first'' t q = []
            \<and> length (filter_events d' u ''task-question-interact-first'' t q) = 1"
  proof -
    from record_interaction_cases [OF assms]
    consider "d' = d" | tk qu where
      "filter_events d (ir_user r) ''task-question-interact-first'' (task_id tk) (q_id qu) = []"
      "d' = d\<lparr>events := events d @ [first_interaction_event d r tk qu]\<rparr>"
      by blast
    then show ?thesis
    proof cases
      case 1
      then show ?thesis by simp
    next
      case 2
      show ?thesis
      proof (cases "ir_user r = u \<and> Some (task_id tk) = Some t \<and> Some (q_id qu) = Some q")
        case True
        then show ?thesis using 2 by (auto simp: filter_events_append first_interaction_event_keys)
      next
        case False
        then show ?thesis using 2 by (auto simp: filter_events_append first_interaction_event_keys)
      qed
    qed
  qed
  have b: "length (filter_events d u ''task-question-interact-first'' t q) \<le> 1 \<longrightarrow>
          length (filter_events d' u ''task-question-interact-first'' t q) \<le> 1"
    using a by auto
  have c: "snd (instrumentation_record_interaction h d' (r\<lparr>ir_now := n\<rparr>)) = d'"
    using record_interaction_again [of h d r n] assms by simp
  have e: "resp = HttpResponse ''ok'' \<and> d' = d"
    if "ir_authenticated r" "ir_method r = ''POST''" "ir_task r = Some s" "py_int h s = Some i"
       "get_task_in_org d i (ir_organization r) = Some tk"
       "has_read_priv h (ir_user r) tk None"
       "get_question h d tk (ir_question r) = Inr qu"
       "filter_events d (ir_user r) ''task-question-interact-first'' (task_id tk) (q_id qu) \<noteq> []"
    using record_interaction_resolved [OF that(1-7)] that(8) assms by simp
  show ?thesis using a b c e by blast
qed


lemma demo_interaction_resolved:
  "ir_authenticated demo_interaction" "ir_method demo_interaction = ''POST''"
  "ir_task demo_interaction = Some ''1''" "py_int demo_host ''1'' = Some 1"
  "get_task_in_org demo_db 1 (ir_organization demo_interaction) = Some demo_parent"
  "has_read_priv demo_host (ir_user demo_interaction) demo_parent None"
  "get_question demo_host demo_db demo_parent (ir_question demo_interaction) = Inr demo_q_name"
  by (simp_all add: demo_interaction_def demo_host_def demo_int_def demo_db_def
      get_task_in_org_def project_org_def get_question_def demo_parent_def demo_child_def
      demo_q_sub_def demo_q_name_def demo_q_back_def)

lemma demo_interaction_first:
  "instrumentation_record_interaction demo_host demo_db demo_interaction =
     (HttpResponse ''ok'',
      demo_db\<lparr>events := [first_interaction_event demo_db demo_interaction demo_parent demo_q_name]\<rparr>)"
proof -
  have "filter_events demo_db (ir_user demo_interaction) ''task-question-interact-first''
          (task_id demo_parent) (q_id demo_q_name) = []"
    by (simp add: filter_events_def demo_db_def)
  moreover have "events demo_db = []" by (simp add: demo_db_def)
  ultimately show ?thesis
    using record_interaction_resolved [OF demo_interaction_resolved] by simp
qed

theorem first_interaction_recorded_once_witness:
  "instrumentation_record_interaction demo_host demo_db demo_interaction =
     (HttpResponse ''ok'',
      demo_db\<lparr>events := [first_interaction_event demo_db demo_interaction demo_parent demo_q_name]\<rparr>) \<and>
   length (filter_events demo_db 7 ''task-question-interact-first'' 1 11) = 0 \<and>
   length (filter_events
     (demo_db\<lparr>events := [first_interaction_event demo_db demo_interaction demo_parent demo_q_name]\<rparr>)
     7 ''task-question-interact-first'' 1 11) = 1 \<and>
   snd (instrumentation_record_interaction demo_host
     (demo_db\<lparr>events := [first_interaction_event demo_db demo_interaction demo_parent demo_q_name]\<rparr>)
     (demo_interaction\<lparr>ir_now := 200\<rparr>)) =
     demo_db\<lparr>events := [first_interaction_event demo_db demo_interaction demo_parent demo_q_name]\<rparr>"
proof -
  note T = first_interaction_recorded_once [OF demo_interaction_first, of 7 1 11 200]
  have e0: "filter_events demo_db 7 ''task-question-interact-first'' 1 11 = []"
    by (simp add: filter_events_def demo_db_def)
  have le: "length (filter_events demo_db 7 ''task-question-interact-first'' 1 11) \<le> 1"
    using e0 by simp
  have ne: "filter_events
     (demo_db\<lparr>events := [first_interaction_event demo_db demo_interaction demo_parent demo_q_name]\<rparr>)
     7 ''task-question-interact-first'' 1 11 \<noteq> []"
    by (simp add: filter_events_def first_interaction_event_def demo_interaction_def
        demo_parent_def demo_q_name_def)
  from T ne e0 have one: "length (filter_events
     (demo_db\<lparr>events := [first_interaction_event demo_db demo_interaction demo_parent demo_q_name]\<rparr>)
     7 ''task-question-interact-first'' 1 11) = 1"
    by auto
  from T have again: "snd (instrumentation_record_interaction demo_host
     (demo_db\<lparr>events := [first_interaction_event demo_db demo_interaction demo_parent demo_q_name]\<rparr>)
     (demo_interaction\<lparr>ir_now := 200\<rparr>)) =
     demo_db\<lparr>events := [first_interaction_event demo_db demo_interaction demo_parent demo_q_name]\<rparr>"
    by blast
  show ?thesis using demo_interaction_first e0 one again by simp
qed

subsection \<open>Skipping, clearing and the permission check\<close>

lemma next_question_post_resolved:
  assumes "nq_authenticated r"
      and "get_task_in_org d (nq_taskid r) (nq_organization r) = Some tk"
      and "get_answers h d tk = Inr answered"
      and "has_write_priv h (nq_user r) tk None"
      and "get_question h d tk (nq_question r) = Inr q"
  shows "next_question_post h d r =
     (case read_value h q answered r of
        Respond resp \<Rightarrow> (resp, d)
      | Proceed v is_cleared \<Rightarrow> save_and_respond h d r tk q v is_cleared)"
  using assms by (simp add: next_question_post_def)

lemma find_task_answer_cong:
  "task_answers d' = task_answers d \<Longrightarrow> find_task_answer d' t q = find_task_answer d t q"
  by (simp add: find_task_answer_def)

lemma get_history_cong:
  "task_answer_histories d' = task_answer_histories d \<Longrightarrow> get_history d' a = get_history d a"
  by (simp add: get_history_def)


lemma has_answer_cong:
  "task_answer_histories d' = task_answer_histories d \<Longrightarrow> has_answer d' a = has_answer d a"
  by (simp add: has_answer_def get_current_answer_def get_history_def)

lemma get_current_answer_append:
  "get_current_answer (d\<lparr>task_answer_histories := task_answer_histories d @ [e]\<rparr>) a =
     (if taskanswer e = ta_id a then Some e else get_current_answer d a)"
  by (simp add: get_current_answer_def get_history_def)

lemma find_snoc:
  "find P (xs @ [x]) = (case find P xs of Some y \<Rightarrow> Some y | None \<Rightarrow> if P x then Some x else None)"
  by (induction xs) simp_all

lemma find_task_answer_append:
  "find_task_answer (d\<lparr>task_answers := task_answers d @ [a]\<rparr>) t q =
     (case find_task_answer d t q of
        Some b \<Rightarrow> Some b
      | None \<Rightarrow> if ta_task a = t \<and> ta_question a = q then Some a else None)"
  by (simp add: find_task_answer_def find_snoc)

lemma get_or_create_find:
  "find_task_answer (snd (get_or_create d t q)) t q = Some (fst (get_or_create d t q))"
  by (simp add: get_or_create_def Let_def find_task_answer_append split: option.splits)

lemma get_or_create_frame:
  "tasks (snd (get_or_create d t q)) = tasks d"
  "task_answer_histories (snd (get_or_create d t q)) = task_answer_histories d"
  "events (snd (get_or_create d t q)) = events d"
  "projects (snd (get_or_create d t q)) = projects d"
  "questions (snd (get_or_create d t q)) = questions d"
  by (simp_all add: get_or_create_def Let_def split: option.splits)


lemma answer_sources_null:
  "answer_sources h d r tk q PNone c =
     Inr \<lparr>src_db = d, src_value = PNone, src_answered_by_tasks = [],
          src_answered_by_file = PNone, src_redirect_to = nq_path r\<rparr>"
  by (simp add: answer_sources_def)

lemma read_value_skip: "nq_post_method r = Some ''skip'' \<Longrightarrow> read_value h q answered r = Proceed PNone False"
  by (simp add: read_value_def)

lemma read_value_clear: "nq_post_method r = Some ''clear'' \<Longrightarrow> read_value h q answered r = Proceed PNone True"
  by (simp add: read_value_def)

lemma clear_answer_frame:
  "task_answers (clear_answer d a u) = task_answers d"
  "tasks (clear_answer d a u) = tasks d"
  "events (clear_answer d a u) = events d"
  by (simp_all add: clear_answer_def)

lemma save_answer_frame:
  "task_answers (snd (save_answer d a v ts f u)) = task_answers d"
  "tasks (snd (save_answer d a v ts f u)) = tasks d"
  "events (snd (save_answer d a v ts f u)) = events d"
  by (simp_all add: save_answer_def Let_def)

lemma has_answer_clear: "\<not> has_answer (clear_answer d a u) a"
  by (simp add: clear_answer_def has_answer_def get_current_answer_append)

lemma current_answer_clear:
  "get_current_answer (clear_answer d a u) a = None \<or>
   (\<exists>e. get_current_answer (clear_answer d a u) a = Some e \<and> cleared e)"
  using has_answer_clear [of d a u] by (auto simp: has_answer_def split: option.splits)

lemma current_answer_save:
  "\<exists>e. get_current_answer (snd (save_answer d a v ts f u)) a = Some e \<and> same_answer e v ts f"
  by (cases "get_current_answer d a")
     (simp_all add: save_answer_def differs_materially_def get_current_answer_append
        same_answer_def)

lemma save_answer_changed:
  "fst (save_answer d a v ts f u) = differs_materially d a v ts f"
  by (simp add: save_answer_def)

lemma store_answer_frame:
  "task_answers (snd (store_answer d a r v ts f c)) = task_answers d"
  "tasks (snd (store_answer d a r v ts f c)) = tasks d"
  "events (snd (store_answer d a r v ts f c)) = events d"
  by (simp_all add: store_answer_def Let_def clear_answer_frame save_answer_frame split_beta)

lemma store_answer_db:
  "snd (store_answer d a r v ts f c) =
     (if c then clear_answer d a (nq_user r) else snd (save_answer d a v (map task_id ts) f (nq_user r)))"
  by (simp add: store_answer_def Let_def split_beta)

lemma save_and_respond_null:
  "save_and_respond h d r tk q PNone c =
     (JsonOk (nq_path r),
      (snd (store_answer (snd (get_or_create d (task_id tk) (q_id q)))
              (fst (get_or_create d (task_id tk) (q_id q))) r PNone [] PNone c))
       \<lparr>events := events d @
          [answer_event (snd (store_answer (snd (get_or_create d (task_id tk) (q_id q)))
              (fst (get_or_create d (task_id tk) (q_id q))) r PNone [] PNone c)) r tk q
             (fst (get_or_create d (task_id tk) (q_id q)))
             (fst (store_answer (snd (get_or_create d (task_id tk) (q_id q)))
              (fst (get_or_create d (task_id tk) (q_id q))) r PNone [] PNone c)) PNone]\<rparr>)"
  by (simp add: save_and_respond_def answer_sources_null split_beta Let_def
      store_answer_frame get_or_create_frame)


lemma get_current_answer_events [simp]:
  "get_current_answer (d\<lparr>events := es\<rparr>) a = get_current_answer d a"
  by (simp add: get_current_answer_def get_history_def)

lemma has_answer_events [simp]:
  "has_answer (d\<lparr>events := es\<rparr>) a = has_answer d a"
  by (simp add: has_answer_def)

lemma shown_answer_eq:
  assumes "find_task_answer d (task_id tk) (q_id q) = Some a"
  shows "shown_answer d tk q =
     (case get_current_answer d a of None \<Rightarrow> None | Some e \<Rightarrow> if cleared e then None else Some e)"
  using assms by (simp add: shown_answer_def)

lemma null_post_result:
  assumes "nq_authenticated r"
      and "get_task_in_org d (nq_taskid r) (nq_organization r) = Some tk"
      and "get_answers h d tk = Inr answered"
      and "has_write_priv h (nq_user r) tk None"
      and "get_question h d tk (nq_question r) = Inr q"
      and "read_value h q answered r = Proceed PNone c"
  defines "a \<equiv> fst (get_or_create d (task_id tk) (q_id q))"
      and "d1 \<equiv> snd (get_or_create d (task_id tk) (q_id q))"
  shows "fst (next_question_post h d r) = JsonOk (nq_path r)"
    and "find_task_answer (snd (next_question_post h d r)) (task_id tk) (q_id q) = Some a"
    and "get_current_answer (snd (next_question_post h d r)) a =
           get_current_answer (snd (store_answer d1 a r PNone [] PNone c)) a"
proof -
  have eq: "next_question_post h d r = save_and_respond h d r tk q PNone c"
    using next_question_post_resolved [OF assms(1-5)] assms(6) by simp
  show "fst (next_question_post h d r) = JsonOk (nq_path r)"
    unfolding eq save_and_respond_null by simp
  have "find_task_answer (snd (store_answer d1 a r PNone [] PNone c)) (task_id tk) (q_id q) =
        find_task_answer d1 (task_id tk) (q_id q)"
    by (rule find_task_answer_cong) (rule store_answer_frame)
  also have "\<dots> = Some a" unfolding a_def d1_def by (rule get_or_create_find)
  finally show "find_task_answer (snd (next_question_post h d r)) (task_id tk) (q_id q) = Some a"
    unfolding eq save_and_respond_null a_def d1_def by simp
  show "get_current_answer (snd (next_question_post h d r)) a =
           get_current_answer (snd (store_answer d1 a r PNone [] PNone c)) a"
    unfolding eq save_and_respond_null a_def d1_def by simp
qed

text \<open>
  Claim C1. Skipping and clearing are distinct. For a request that reaches the question
  (the user is logged in and may write the task, the task and the question are found,
  the resolver returned): after a skip the answer of the task and question holds a
  current entry that is not cleared, with a null value, no tasks and no file, the question
  has an answer, and the view shows that entry; after a clear the question has no answer
  and the view shows none, as for a question that was never answered.
\<close>

theorem skip_and_clear_are_distinct:
  assumes "nq_authenticated r"
      and "get_task_in_org d (nq_taskid r) (nq_organization r) = Some tk"
      and "get_answers h d tk = Inr answered"
      and "has_write_priv h (nq_user r) tk None"
      and "get_question h d tk (nq_question r) = Inr q"
      and "next_question_post h d r = (resp, d')"
  shows "(nq_post_method r = Some ''skip'' \<longrightarrow>
            resp = JsonOk (nq_path r) \<and>
            (\<exists>a e. find_task_answer d' (task_id tk) (q_id q) = Some a \<and>
                   get_current_answer d' a = Some e \<and> \<not> cleared e \<and>
                   stored_value e = PNone \<and> answered_by_task e = [] \<and>
                   answered_by_file e = PNone \<and>
                   has_answer d' a \<and> shown_answer d' tk q = Some e)) \<and>
         (nq_post_method r = Some ''clear'' \<longrightarrow>
            resp = JsonOk (nq_path r) \<and>
            (\<exists>a. find_task_answer d' (task_id tk) (q_id q) = Some a \<and> \<not> has_answer d' a) \<and>
            shown_answer d' tk q = None)"
proof -
  define a where "a = fst (get_or_create d (task_id tk) (q_id q))"
  define d1 where "d1 = snd (get_or_create d (task_id tk) (q_id q))"
  have resp: "resp = fst (next_question_post h d r)" and d': "d' = snd (next_question_post h d r)"
    using assms(6) by simp_all
  have skip: "resp = JsonOk (nq_path r) \<and>
            (\<exists>a e. find_task_answer d' (task_id tk) (q_id q) = Some a \<and>
                   get_current_answer d' a = Some e \<and> \<not> cleared e \<and>
                   stored_value e = PNone \<and> answered_by_task e = [] \<and>
                   answered_by_file e = PNone \<and>
                   has_answer d' a \<and> shown_answer d' tk q = Some e)"
    if m: "nq_post_method r = Some ''skip''"
  proof -
    note rv = read_value_skip [OF m, of h q answered]
    note R = null_post_result [OF assms(1-5) rv, folded a_def d1_def]
    have cur: "get_current_answer d' a =
        get_current_answer (snd (save_answer d1 a PNone [] PNone (nq_user r))) a"
      unfolding d' R(3) by (simp add: store_answer_db)
    obtain e where e: "get_current_answer d' a = Some e" "same_answer e PNone [] PNone"
      using current_answer_save [of d1 a PNone "[]" PNone "nq_user r"] cur by auto
    have f: "find_task_answer d' (task_id tk) (q_id q) = Some a" unfolding d' by (rule R(2))
    have fields: "\<not> cleared e" "stored_value e = PNone" "answered_by_task e = []"
        "answered_by_file e = PNone"
      using e(2) by (simp_all add: same_answer_def)
    have ha: "has_answer d' a" using e(1) fields(1) by (simp add: has_answer_def)
    have sh: "shown_answer d' tk q = Some e"
      using shown_answer_eq [OF f] e(1) fields(1) by simp
    show ?thesis using R(1) resp f e(1) fields ha sh by blast
  qed
  have clear: "resp = JsonOk (nq_path r) \<and>
            (\<exists>a. find_task_answer d' (task_id tk) (q_id q) = Some a \<and> \<not> has_answer d' a) \<and>
            shown_answer d' tk q = None"
    if m: "nq_post_method r = Some ''clear''"
  proof -
    note rv = read_value_clear [OF m, of h q answered]
    note R = null_post_result [OF assms(1-5) rv, folded a_def d1_def]
    have cur: "get_current_answer d' a = get_current_answer (clear_answer d1 a (nq_user r)) a"
      unfolding d' R(3) by (simp add: store_answer_db)
    have f: "find_task_answer d' (task_id tk) (q_id q) = Some a" unfolding d' by (rule R(2))
    have nh: "\<not> has_answer d' a"
      using has_answer_clear [of d1 a "nq_user r"] cur by (simp add: has_answer_def)
    have sh: "shown_answer d' tk q = None"
    proof (cases "get_current_answer d' a")
      case None
      then show ?thesis using shown_answer_eq [OF f] by simp
    next
      case (Some e)
      then have "cleared e" using nh by (simp add: has_answer_def)
      then show ?thesis using shown_answer_eq [OF f] Some by simp
    qed
    show ?thesis using R(1) resp f nh sh by blast
  qed
  show ?thesis using skip clear by blast
qed

lemma demo_skip_resolved:
  "nq_authenticated demo_skip"
  "get_task_in_org demo_db (nq_taskid demo_skip) (nq_organization demo_skip) = Some demo_parent"
  "get_answers demo_host demo_db demo_parent = Inr \<lparr>as_dict = [], can_answer = [], was_imputed = []\<rparr>"
  "has_write_priv demo_host (nq_user demo_skip) demo_parent None"
  "get_question demo_host demo_db demo_parent (nq_question demo_skip) = Inr demo_q_name"
  by (simp_all add: demo_skip_def demo_host_def demo_int_def demo_db_def
      get_task_in_org_def project_org_def get_question_def demo_parent_def demo_child_def
      demo_q_sub_def demo_q_name_def demo_q_back_def)


lemma demo_skip_run:
  "next_question_post demo_host demo_db demo_skip = (JsonOk ''/tasks/parent'', demo_skipped_db)"
  by code_simp

lemma demo_clear_run:
  "next_question_post demo_host demo_db demo_clear = (JsonOk ''/tasks/parent'', demo_cleared_db)"
  by code_simp


lemma demo_clear_resolved:
  "nq_authenticated demo_clear"
  "get_task_in_org demo_db (nq_taskid demo_clear) (nq_organization demo_clear) = Some demo_parent"
  "get_answers demo_host demo_db demo_parent = Inr \<lparr>as_dict = [], can_answer = [], was_imputed = []\<rparr>"
  "has_write_priv demo_host (nq_user demo_clear) demo_parent None"
  "get_question demo_host demo_db demo_parent (nq_question demo_clear) = Inr demo_q_sub"
  by (simp_all add: demo_clear_def demo_skip_def demo_host_def demo_int_def demo_db_def
      get_task_in_org_def project_org_def get_question_def demo_parent_def demo_child_def
      demo_q_sub_def demo_q_name_def demo_q_back_def)

theorem skip_and_clear_are_distinct_witness:
  "next_question_post demo_host demo_db demo_skip = (JsonOk ''/tasks/parent'', demo_skipped_db) \<and>
   shown_answer demo_db demo_parent demo_q_name = None \<and>
   shown_answer demo_skipped_db demo_parent demo_q_name =
     Some \<lparr>taskanswer = 2, stored_value = PNone, answered_by_task = [],
           answered_by_file = PNone, cleared = False, answered_by = 7\<rparr> \<and>
   has_answer demo_skipped_db \<lparr>ta_id = 2, ta_task = 1, ta_question = 11\<rparr> \<and>
   next_question_post demo_host demo_db demo_clear = (JsonOk ''/tasks/parent'', demo_cleared_db) \<and>
   shown_answer demo_db demo_parent demo_q_sub =
     Some \<lparr>taskanswer = 1, stored_value = PNone, answered_by_task = [2],
           answered_by_file = PNone, cleared = False, answered_by = 7\<rparr> \<and>
   shown_answer demo_cleared_db demo_parent demo_q_sub = None \<and>
   \<not> has_answer demo_cleared_db \<lparr>ta_id = 1, ta_task = 1, ta_question = 10\<rparr>"
proof -
  have ms: "nq_post_method demo_skip = Some ''skip''" by (simp add: demo_skip_def)
  have mc: "nq_post_method demo_clear = Some ''clear''" by (simp add: demo_clear_def)
  from skip_and_clear_are_distinct [OF demo_skip_resolved demo_skip_run] ms
  obtain a e where s: "find_task_answer demo_skipped_db (task_id demo_parent) (q_id demo_q_name) = Some a"
      "has_answer demo_skipped_db a" "shown_answer demo_skipped_db demo_parent demo_q_name = Some e"
      "stored_value e = PNone" "answered_by_task e = []"
    by blast
  from skip_and_clear_are_distinct [OF demo_clear_resolved demo_clear_run] mc
  have c: "shown_answer demo_cleared_db demo_parent demo_q_sub = None" by blast
  have c1: "shown_answer demo_db demo_parent demo_q_name = None" by code_simp
  have c2: "shown_answer demo_skipped_db demo_parent demo_q_name =
     Some \<lparr>taskanswer = 2, stored_value = PNone, answered_by_task = [],
           answered_by_file = PNone, cleared = False, answered_by = 7\<rparr>" by code_simp
  have c3: "has_answer demo_skipped_db \<lparr>ta_id = 2, ta_task = 1, ta_question = 11\<rparr>" by code_simp
  have c4: "shown_answer demo_db demo_parent demo_q_sub =
     Some \<lparr>taskanswer = 1, stored_value = PNone, answered_by_task = [2],
           answered_by_file = PNone, cleared = False, answered_by = 7\<rparr>" by code_simp
  have c5: "\<not> has_answer demo_cleared_db \<lparr>ta_id = 1, ta_task = 1, ta_question = 10\<rparr>" by code_simp
  show ?thesis using demo_skip_run demo_clear_run s c c1 c2 c3 c4 c5 by blast
qed

text \<open>
  Claim C8. A POST to \<^verbatim>\<open>next_question\<close> by a logged-in user who may not write the task
  changes nothing in the database, whatever method (save, skip or clear) and value it
  carries, and the response is forbidden; only when the resolver, which runs before the
  permission check, raised, the response is that exception instead.
\<close>

theorem unprivileged_post_changes_nothing:
  assumes "nq_authenticated r"
      and "get_task_in_org d (nq_taskid r) (nq_organization r) = Some tk"
      and "\<not> has_write_priv h (nq_user r) tk None"
  shows "next_question_post h d r =
     ((case get_answers h d tk of Inl e \<Rightarrow> Raised e | Inr answered \<Rightarrow> HttpResponseForbidden), d)"
  using assms by (simp add: next_question_post_def split: sum.splits)

theorem unprivileged_post_changes_nothing_witness:
  "next_question_post demo_host demo_db (demo_skip\<lparr>nq_user := 8\<rparr>) = (HttpResponseForbidden, demo_db) \<and>
   next_question_post demo_host demo_db (demo_save\<lparr>nq_user := 8\<rparr>) = (HttpResponseForbidden, demo_db) \<and>
   next_question_post demo_host demo_db (demo_clear\<lparr>nq_user := 8\<rparr>) = (HttpResponseForbidden, demo_db)"
proof -
  have r: "nq_authenticated (demo_skip\<lparr>nq_user := 8\<rparr>)"
    "get_task_in_org demo_db (nq_taskid (demo_skip\<lparr>nq_user := 8\<rparr>))
       (nq_organization (demo_skip\<lparr>nq_user := 8\<rparr>)) = Some demo_parent"
    "\<not> has_write_priv demo_host (nq_user (demo_skip\<lparr>nq_user := 8\<rparr>)) demo_parent None"
    using demo_skip_resolved by (simp_all add: demo_host_def)
  have g: "get_answers demo_host demo_db demo_parent =
      Inr \<lparr>as_dict = [], can_answer = [], was_imputed = []\<rparr>"
    by (rule demo_skip_resolved)
  have a: "next_question_post demo_host demo_db (demo_skip\<lparr>nq_user := 8\<rparr>) =
      (HttpResponseForbidden, demo_db)"
    using unprivileged_post_changes_nothing [OF r] g by simp
  have b: "next_question_post demo_host demo_db (demo_save\<lparr>nq_user := 8\<rparr>) =
      (HttpResponseForbidden, demo_db)" by code_simp
  have c: "next_question_post demo_host demo_db (demo_clear\<lparr>nq_user := 8\<rparr>) =
      (HttpResponseForbidden, demo_db)" by code_simp
  show ?thesis using a b c by blast
qed

subsection \<open>References to existing tasks\<close>

lemma get_tasks_Inr_iff:
  "get_tasks h d items = Inr ts \<longleftrightarrow>
     (\<exists>ids. map (py_int h) items = map Some ids \<and> map (get_task d) ids = map Some ts)"
proof (induction items arbitrary: ts)
  case Nil
  show ?case by auto
next
  case (Cons item items)
  show ?case
  proof (cases "py_int h item")
    case None
    then show ?thesis by (auto simp: map_eq_Cons_conv)
  next
    case (Some i)
    note i = this
    show ?thesis
    proof (cases "get_task d i")
      case None
      then show ?thesis using i by (auto simp: map_eq_Cons_conv)
    next
      case (Some t)
      note t = this
      show ?thesis
      proof (cases "get_tasks h d items")
        case (Inl e)
        then have "\<not> (\<exists>ids. map (py_int h) items = map Some ids \<and>
                     (\<exists>ts'. map (get_task d) ids = map Some ts'))"
          using Cons.IH by simp
        then show ?thesis using i t Inl by (auto simp: map_eq_Cons_conv)
      next
        case (Inr ts')
        then obtain ids where ids: "map (py_int h) items = map Some ids"
            "map (get_task d) ids = map Some ts'"
          using Cons.IH [of ts'] by auto
        have uniq: "ids' = ids" if "map (py_int h) items = map Some ids'" for ids'
          using that ids(1) by (simp add: inj_map_eq_map [of Some, OF inj_Some])
        show ?thesis
        proof
          assume "get_tasks h d (item # items) = Inr ts"
          then have "ts = t # ts'" using i t Inr by simp
          then show "\<exists>ids. map (py_int h) (item # items) = map Some ids \<and>
                      map (get_task d) ids = map Some ts"
            using i t ids by (intro exI [of _ "i # ids"]) simp
        next
          assume "\<exists>ids. map (py_int h) (item # items) = map Some ids \<and>
                      map (get_task d) ids = map Some ts"
          then obtain ids0 where a: "map (py_int h) (item # items) = map Some ids0"
              "map (get_task d) ids0 = map Some ts" by blast
          from a(1) i obtain ids' where b: "ids0 = i # ids'" "map (py_int h) items = map Some ids'"
            by (cases ids0) auto
          from uniq [OF b(2)] have "ids' = ids" .
          with a(2) b(1) t ids(2) have "ts = t # ts'"
            by (cases ts) (auto simp: inj_map_eq_map [of Some, OF inj_Some])
          then show "get_tasks h d (item # items) = Inr ts" using i t Inr by simp
        qed
      qed
    qed
  qed
qed

lemma get_tasks_same_tasks:
  "tasks d' = tasks d \<Longrightarrow> get_tasks h d' items = get_tasks h d items"
  by (induction items) (simp_all add: get_task_def split: option.splits sum.splits)

lemma select_existing_tasks_same_tasks:
  "tasks d' = tasks d \<Longrightarrow> select_existing_tasks h d' u q s = select_existing_tasks h d u q s"
  by (simp add: select_existing_tasks_def get_tasks_same_tasks [of d' d])

lemma select_existing_tasks_Inr_iff:
  "select_existing_tasks h d u q s = Inr ts \<longleftrightarrow>
     get_tasks h d (split_comma s) = Inr ts \<and> \<not> list_ex (invalid_task h u q) ts \<and>
     (spec_type q = ''module'' \<longrightarrow> length ts = 1)"
  by (cases "get_tasks h d (split_comma s)") (auto simp: select_existing_tasks_def)

lemma select_existing_tasks_Inl:
  assumes "get_tasks h d (split_comma s) = Inr ts"
  shows "select_existing_tasks h d u q s =
     (if list_ex (invalid_task h u q) ts then Inl (ValueError ''invalid task ID'')
      else if spec_type q = ''module'' \<and> length ts \<noteq> 1
        then Inl (ValueError ''did not provide exactly one task ID'')
      else Inr ts)"
  using assms by (simp add: select_existing_tasks_def)


lemma answer_sources_existing:
  assumes "spec_type q = ''module'' \<or> spec_type q = ''module-set''" and "s \<noteq> ''__new''"
  shows "answer_sources h d r tk q (PStr s) False =
     (case select_existing_tasks h d (nq_user r) q s of
        Inl e \<Rightarrow> Inl e
      | Inr ts \<Rightarrow> Inr \<lparr>src_db = d, src_value = PNone, src_answered_by_tasks = ts,
                        src_answered_by_file = PNone, src_redirect_to = nq_path r\<rparr>)"
  using assms by (auto simp: answer_sources_def)

lemma invalid_task_iff:
  "\<not> list_ex (invalid_task h u q) ts \<longleftrightarrow>
     (\<forall>t\<in>set ts. map_option module_id (answer_type_module q) = Some (task_module t)
                  \<and> has_read_priv h u t None)"
proof -
  have "\<not> invalid_task h u q t \<longleftrightarrow>
      map_option module_id (answer_type_module q) = Some (task_module t) \<and> has_read_priv h u t None"
    for t
    unfolding invalid_task_def by (cases "answer_type_module q") auto
  then show ?thesis by (simp add: list_ex_iff)
qed

lemma existing_tasks_post:
  assumes "nq_authenticated r"
      and "get_task_in_org d (nq_taskid r) (nq_organization r) = Some tk"
      and "get_answers h d tk = Inr answered"
      and "has_write_priv h (nq_user r) tk None"
      and "get_question h d tk (nq_question r) = Inr q"
      and "spec_type q = ''module'' \<or> spec_type q = ''module-set''"
      and "read_value h q answered r = Proceed (PStr s) False"
      and "s \<noteq> ''__new''"
  shows "next_question_post h d r =
     (case select_existing_tasks h d (nq_user r) q s of
        Inl e \<Rightarrow> (Raised e, snd (get_or_create d (task_id tk) (q_id q)))
      | Inr ts \<Rightarrow>
         (JsonOk (nq_path r),
          (snd (store_answer (snd (get_or_create d (task_id tk) (q_id q)))
                 (fst (get_or_create d (task_id tk) (q_id q))) r PNone ts PNone False))
           \<lparr>events := events d @
             [answer_event (snd (store_answer (snd (get_or_create d (task_id tk) (q_id q)))
                 (fst (get_or_create d (task_id tk) (q_id q))) r PNone ts PNone False)) r tk q
                (fst (get_or_create d (task_id tk) (q_id q)))
                (fst (store_answer (snd (get_or_create d (task_id tk) (q_id q)))
                 (fst (get_or_create d (task_id tk) (q_id q))) r PNone ts PNone False)) PNone]\<rparr>))"
proof -
  have sel: "select_existing_tasks h (snd (get_or_create d (task_id tk) (q_id q))) (nq_user r) q s =
      select_existing_tasks h d (nq_user r) q s"
    by (rule select_existing_tasks_same_tasks) (rule get_or_create_frame)
  have "next_question_post h d r = save_and_respond h d r tk q (PStr s) False"
    using next_question_post_resolved [OF assms(1-5)] assms(7) by simp
  also have "\<dots> = (case select_existing_tasks h d (nq_user r) q s of
        Inl e \<Rightarrow> (Raised e, snd (get_or_create d (task_id tk) (q_id q)))
      | Inr ts \<Rightarrow>
         (JsonOk (nq_path r),
          (snd (store_answer (snd (get_or_create d (task_id tk) (q_id q)))
                 (fst (get_or_create d (task_id tk) (q_id q))) r PNone ts PNone False))
           \<lparr>events := events d @
             [answer_event (snd (store_answer (snd (get_or_create d (task_id tk) (q_id q)))
                 (fst (get_or_create d (task_id tk) (q_id q))) r PNone ts PNone False)) r tk q
                (fst (get_or_create d (task_id tk) (q_id q)))
                (fst (store_answer (snd (get_or_create d (task_id tk) (q_id q)))
                 (fst (get_or_create d (task_id tk) (q_id q))) r PNone ts PNone False)) PNone]\<rparr>))"
    by (simp add: save_and_respond_def answer_sources_existing [OF assms(6) assms(8)] sel
        split_beta Let_def store_answer_frame get_or_create_frame split: sum.splits)
  finally show ?thesis .
qed

text \<open>
  Claim C3. When a user who may write the task saves, as the answer to a question of type
  module or module-set, a string other than \<^verbatim>\<open>__new\<close>, the request is accepted exactly
  when every comma-separated item is an integer that names a task, every such task has the
  module the question declares as its answer type and may be read by the user, and, for a
  question of type module, there is exactly one task; a question of type module-set
  takes any number of them. Otherwise an exception escapes, and when the tasks exist but
  one is of the wrong module or unreadable, or their number is wrong, it is a
  \<^verbatim>\<open>ValueError\<close>.
\<close>

theorem task_references_are_validated:
  assumes "nq_authenticated r"
      and "get_task_in_org d (nq_taskid r) (nq_organization r) = Some tk"
      and "get_answers h d tk = Inr answered"
      and "has_write_priv h (nq_user r) tk None"
      and "get_question h d tk (nq_question r) = Inr q"
      and "spec_type q = ''module'' \<or> spec_type q = ''module-set''"
      and "read_value h q answered r = Proceed (PStr s) False"
      and "s \<noteq> ''__new''"
  shows "((\<exists>u. fst (next_question_post h d r) = JsonOk u) \<longleftrightarrow>
          (\<exists>ids ts. map (py_int h) (split_comma s) = map Some ids \<and>
             map (get_task d) ids = map Some ts \<and>
             (\<forall>t\<in>set ts. map_option module_id (answer_type_module q) = Some (task_module t)
                          \<and> has_read_priv h (nq_user r) t None) \<and>
             (spec_type q = ''module'' \<longrightarrow> length ts = 1))) \<and>
         ((\<exists>u. fst (next_question_post h d r) = JsonOk u) \<or>
          (\<exists>e. fst (next_question_post h d r) = Raised e)) \<and>
         (\<forall>ts. get_tasks h d (split_comma s) = Inr ts \<and>
               (list_ex (invalid_task h (nq_user r) q) ts \<or>
                spec_type q = ''module'' \<and> length ts \<noteq> 1) \<longrightarrow>
               (\<exists>m. fst (next_question_post h d r) = Raised (ValueError m)))"
proof -
  note eq = existing_tasks_post [OF assms]
  have ok_iff: "(\<exists>u. fst (next_question_post h d r) = JsonOk u) \<longleftrightarrow>
      (\<exists>ts. select_existing_tasks h d (nq_user r) q s = Inr ts)"
    unfolding eq by (cases "select_existing_tasks h d (nq_user r) q s") simp_all
  have a: "(\<exists>u. fst (next_question_post h d r) = JsonOk u) \<longleftrightarrow>
          (\<exists>ids ts. map (py_int h) (split_comma s) = map Some ids \<and>
             map (get_task d) ids = map Some ts \<and>
             (\<forall>t\<in>set ts. map_option module_id (answer_type_module q) = Some (task_module t)
                          \<and> has_read_priv h (nq_user r) t None) \<and>
             (spec_type q = ''module'' \<longrightarrow> length ts = 1))"
    unfolding ok_iff select_existing_tasks_Inr_iff get_tasks_Inr_iff invalid_task_iff by blast
  have b: "(\<exists>u. fst (next_question_post h d r) = JsonOk u) \<or>
          (\<exists>e. fst (next_question_post h d r) = Raised e)"
    unfolding eq by (cases "select_existing_tasks h d (nq_user r) q s") simp_all
  have c: "\<exists>m. fst (next_question_post h d r) = Raised (ValueError m)"
    if "get_tasks h d (split_comma s) = Inr ts"
       "list_ex (invalid_task h (nq_user r) q) ts \<or> spec_type q = ''module'' \<and> length ts \<noteq> 1"
    for ts
    using that unfolding eq select_existing_tasks_Inl [OF that(1)] by auto
  show ?thesis using a b c by blast
qed


lemma demo_link_resolved:
  "nq_authenticated demo_link"
  "get_task_in_org demo_db (nq_taskid demo_link) (nq_organization demo_link) = Some demo_child"
  "get_answers demo_host demo_db demo_child = Inr \<lparr>as_dict = [], can_answer = [], was_imputed = []\<rparr>"
  "has_write_priv demo_host (nq_user demo_link) demo_child None"
  "get_question demo_host demo_db demo_child (nq_question demo_link) = Inr demo_q_back"
  "spec_type demo_q_back = ''module'' \<or> spec_type demo_q_back = ''module-set''"
  "read_value demo_host demo_q_back \<lparr>as_dict = [], can_answer = [], was_imputed = []\<rparr> demo_link =
     Proceed (PStr ''1'') False"
  "''1'' \<noteq> ''__new''"
  by code_simp+

lemma demo_link_run:
  "next_question_post demo_host demo_db demo_link = (JsonOk ''/tasks/child'', demo_linked_db)"
  by code_simp

theorem task_references_are_validated_witness:
  "fst (next_question_post demo_host demo_db demo_link) = JsonOk ''/tasks/child'' \<and>
   map (py_int demo_host) (split_comma ''1'') = map Some [1] \<and>
   map (get_task demo_db) [1] = map Some [demo_parent] \<and>
   map_option module_id (answer_type_module demo_q_back) = Some (task_module demo_parent) \<and>
   has_read_priv demo_host (nq_user demo_link) demo_parent None \<and>
   fst (next_question_post demo_host demo_db (demo_link\<lparr>nq_value := [''2'']\<rparr>)) =
     Raised (ValueError ''invalid task ID'') \<and>
   fst (next_question_post demo_host demo_db (demo_link\<lparr>nq_value := [''1,1'']\<rparr>)) =
     Raised (ValueError ''did not provide exactly one task ID'') \<and>
   fst (next_question_post demo_host demo_db (demo_link\<lparr>nq_value := [''3'']\<rparr>)) =
     Raised DoesNotExist \<and>
   fst (next_question_post demo_host demo_db (demo_link\<lparr>nq_user := 8\<rparr>)) =
     HttpResponseForbidden"
proof -
  have a: "map (py_int demo_host) (split_comma ''1'') = map Some [1]" by code_simp
  have b: "map (get_task demo_db) [1] = map Some [demo_parent]" by code_simp
  have c: "map_option module_id (answer_type_module demo_q_back) = Some (task_module demo_parent)"
    by code_simp
  have e: "has_read_priv demo_host (nq_user demo_link) demo_parent None" by code_simp
  have "\<exists>ids ts. map (py_int demo_host) (split_comma ''1'') = map Some ids \<and>
             map (get_task demo_db) ids = map Some ts \<and>
             (\<forall>t\<in>set ts. map_option module_id (answer_type_module demo_q_back) = Some (task_module t)
                          \<and> has_read_priv demo_host (nq_user demo_link) t None) \<and>
             (spec_type demo_q_back = ''module'' \<longrightarrow> length ts = 1)"
    using a b c e by (intro exI [of _ "[1]"] exI [of _ "[demo_parent]"]) simp
  with task_references_are_validated [OF demo_link_resolved]
  obtain u where u: "fst (next_question_post demo_host demo_db demo_link) = JsonOk u" by blast
  have "u = ''/tasks/child''" using u demo_link_run by simp
  then have f: "fst (next_question_post demo_host demo_db demo_link) = JsonOk ''/tasks/child''"
    using u by simp
  have g: "fst (next_question_post demo_host demo_db (demo_link\<lparr>nq_value := [''2'']\<rparr>)) =
     Raised (ValueError ''invalid task ID'')" by code_simp
  have h: "fst (next_question_post demo_host demo_db (demo_link\<lparr>nq_value := [''1,1'']\<rparr>)) =
     Raised (ValueError ''did not provide exactly one task ID'')" by code_simp
  have i: "fst (next_question_post demo_host demo_db (demo_link\<lparr>nq_value := [''3'']\<rparr>)) =
     Raised DoesNotExist" by code_simp
  have j: "fst (next_question_post demo_host demo_db (demo_link\<lparr>nq_user := 8\<rparr>)) =
     HttpResponseForbidden" by code_simp
  show ?thesis using a b c e f g h i j by blast
qed

lemma find_task_answer_Some:
  assumes "find_task_answer d t q = Some a"
  shows "a \<in> set (task_answers d)" and "ta_task a = t" and "ta_question a = q"
proof -
  from assms obtain i where i: "i < length (task_answers d)"
      "ta_task (task_answers d ! i) = t \<and> ta_question (task_answers d ! i) = q"
      "a = task_answers d ! i"
    unfolding find_task_answer_def find_Some_iff by blast
  show "a \<in> set (task_answers d)" unfolding i(3) using i(1) by (rule nth_mem)
  show "ta_task a = t" unfolding i(3) using i(2) by blast
  show "ta_question a = q" unfolding i(3) using i(2) by blast
qed

lemma child_links_mem:
  assumes "a \<in> set (task_answers d)" and "get_current_answer d a = Some e"
      and "\<not> cleared e" and "c \<in> set (answered_by_task e)"
  shows "(ta_task a, c) \<in> set (child_links d)"
proof -
  have "(ta_task a, c) \<in> set (case get_current_answer d a of
                         None \<Rightarrow> []
                       | Some e \<Rightarrow> if cleared e then []
                                   else map (\<lambda>c. (ta_task a, c)) (answered_by_task e))"
    using assms(2-4) by simp
  then have "\<exists>x\<in>set (task_answers d). (ta_task a, c) \<in> set (case get_current_answer d x of
                         None \<Rightarrow> []
                       | Some e \<Rightarrow> if cleared e then []
                                   else map (\<lambda>c. (ta_task x, c)) (answered_by_task e))"
    using assms(1) by (intro bexI [of _ a])
  then show ?thesis unfolding child_links_def set_concat set_map by blast
qed

text \<open>
  Claim C4, as the code has it. Linking existing tasks is rejected only by the checks of
  claim C3, and then no answer history entry, task or event is written. The view consults
  no ancestry: every linkage that passes those checks is accepted and each linked task
  becomes a child of the task that owns the question, whether or not it was an ancestor
  of that task before.
\<close>

theorem linking_checks_no_ancestry:
  assumes "nq_authenticated r"
      and "get_task_in_org d (nq_taskid r) (nq_organization r) = Some tk"
      and "get_answers h d tk = Inr answered"
      and "has_write_priv h (nq_user r) tk None"
      and "get_question h d tk (nq_question r) = Inr q"
      and "spec_type q = ''module'' \<or> spec_type q = ''module-set''"
      and "read_value h q answered r = Proceed (PStr s) False"
      and "s \<noteq> ''__new''"
  shows "(\<forall>e. select_existing_tasks h d (nq_user r) q s = Inl e \<longrightarrow>
            fst (next_question_post h d r) = Raised e \<and>
            task_answer_histories (snd (next_question_post h d r)) = task_answer_histories d \<and>
            tasks (snd (next_question_post h d r)) = tasks d \<and>
            events (snd (next_question_post h d r)) = events d) \<and>
         (\<forall>ts. select_existing_tasks h d (nq_user r) q s = Inr ts \<longrightarrow>
            fst (next_question_post h d r) = JsonOk (nq_path r) \<and>
            (\<forall>t\<in>set ts. (task_id tk, task_id t) \<in> set (child_links (snd (next_question_post h d r)))))"
proof -
  note eq = existing_tasks_post [OF assms]
  define a where "a = fst (get_or_create d (task_id tk) (q_id q))"
  define d1 where "d1 = snd (get_or_create d (task_id tk) (q_id q))"
  have rej: "fst (next_question_post h d r) = Raised e \<and>
            task_answer_histories (snd (next_question_post h d r)) = task_answer_histories d \<and>
            tasks (snd (next_question_post h d r)) = tasks d \<and>
            events (snd (next_question_post h d r)) = events d"
    if "select_existing_tasks h d (nq_user r) q s = Inl e" for e
    unfolding eq that by (simp add: get_or_create_frame)
  have acc: "fst (next_question_post h d r) = JsonOk (nq_path r) \<and>
            (\<forall>t\<in>set ts. (task_id tk, task_id t) \<in> set (child_links (snd (next_question_post h d r))))"
    if sel: "select_existing_tasks h d (nq_user r) q s = Inr ts" for ts
  proof -
    define d2 where "d2 = snd (store_answer d1 a r PNone ts PNone False)"
    have d': "snd (next_question_post h d r) =
        d2\<lparr>events := events d @ [answer_event d2 r tk q a (fst (store_answer d1 a r PNone ts PNone False)) PNone]\<rparr>"
      unfolding eq sel d2_def a_def d1_def by simp
    have "find_task_answer d2 (task_id tk) (q_id q) = find_task_answer d1 (task_id tk) (q_id q)"
      unfolding d2_def by (rule find_task_answer_cong) (rule store_answer_frame)
    also have "\<dots> = Some a" unfolding a_def d1_def by (rule get_or_create_find)
    finally have f: "find_task_answer (snd (next_question_post h d r)) (task_id tk) (q_id q) = Some a"
      unfolding d' by simp
    have "d2 = snd (save_answer d1 a PNone (map task_id ts) PNone (nq_user r))"
      unfolding d2_def by (simp add: store_answer_db)
    then obtain e where e: "get_current_answer d2 a = Some e"
        "same_answer e PNone (map task_id ts) PNone"
      using current_answer_save [of d1 a PNone "map task_id ts" PNone "nq_user r"] by auto
    have cur: "get_current_answer (snd (next_question_post h d r)) a = Some e"
      unfolding d' using e(1) by simp
    have fields: "\<not> cleared e" "set (answered_by_task e) = set (map task_id ts)"
      using e(2) by (simp_all add: same_answer_def)
    have link: "(task_id tk, task_id t) \<in> set (child_links (snd (next_question_post h d r)))"
      if "t \<in> set ts" for t
    proof -
      have "task_id t \<in> set (answered_by_task e)" unfolding fields(2) using that by simp
      from child_links_mem [OF find_task_answer_Some(1) [OF f] cur fields(1) this]
      show ?thesis unfolding find_task_answer_Some(2) [OF f] .
    qed
    have "fst (next_question_post h d r) = JsonOk (nq_path r)" unfolding eq sel by simp
    then show ?thesis using link by blast
  qed
  show ?thesis using rej acc by blast
qed

text \<open>
  Claim C4 as stated fails: the parent task \<open>1\<close> is an ancestor of the child task \<open>2\<close>,
  and the request that links task \<open>1\<close> as the answer to question \<open>20\<close> of task \<open>2\<close> is
  accepted and stored; afterwards each of the two tasks is its own ancestor.
\<close>

theorem linking_an_ancestor_is_accepted:
  "nq_taskid demo_link = 2 \<and> nq_value demo_link = [''1''] \<and>
   is_ancestor demo_db 1 2 \<and>
   next_question_post demo_host demo_db demo_link = (JsonOk ''/tasks/child'', demo_linked_db) \<and>
   task_answer_histories demo_linked_db \<noteq> task_answer_histories demo_db \<and>
   child_links demo_linked_db = [(1, 2), (2, 1)] \<and>
   is_ancestor demo_linked_db 2 2 \<and> is_ancestor demo_linked_db 1 1"
proof -
  have a: "nq_taskid demo_link = 2" "nq_value demo_link = [''1'']" by code_simp+
  have l0: "child_links demo_db = [(1, 2)]" by code_simp
  have l1: "child_links demo_linked_db = [(1, 2), (2, 1)]" by code_simp
  have b: "is_ancestor demo_db 1 2" unfolding is_ancestor_def l0 by (rule r_into_trancl) simp
  have c: "task_answer_histories demo_linked_db \<noteq> task_answer_histories demo_db" by code_simp
  have e: "(2, 1) \<in> (set [(1, 2), (2, 1)])\<^sup>+" "(1, 2) \<in> (set [(1, 2), (2, 1)])\<^sup>+"
    by (rule r_into_trancl, simp)+
  have f: "is_ancestor demo_linked_db 2 2" "is_ancestor demo_linked_db 1 1"
    unfolding is_ancestor_def l1 using e by (meson trancl_trans)+
  show ?thesis using a b c l1 f demo_link_run by blast
qed

theorem linking_checks_no_ancestry_witness:
  "select_existing_tasks demo_host demo_db (nq_user demo_link) demo_q_back ''1'' = Inr [demo_parent] \<and>
   fst (next_question_post demo_host demo_db demo_link) = JsonOk (nq_path demo_link) \<and>
   (task_id demo_child, task_id demo_parent) \<in>
     set (child_links (snd (next_question_post demo_host demo_db demo_link))) \<and>
   is_ancestor demo_db (task_id demo_parent) (task_id demo_child)"
proof -
  have sel: "select_existing_tasks demo_host demo_db (nq_user demo_link) demo_q_back ''1'' =
      Inr [demo_parent]" by code_simp
  have l0: "child_links demo_db = [(1, 2)]" by code_simp
  have ids: "task_id demo_parent = 1" "task_id demo_child = 2" by code_simp+
  have anc: "is_ancestor demo_db (task_id demo_parent) (task_id demo_child)"
    unfolding is_ancestor_def l0 ids by (rule r_into_trancl) simp
  from linking_checks_no_ancestry [OF demo_link_resolved] sel
  have "fst (next_question_post demo_host demo_db demo_link) = JsonOk (nq_path demo_link) \<and>
        (\<forall>t\<in>set [demo_parent]. (task_id demo_child, task_id t) \<in>
           set (child_links (snd (next_question_post demo_host demo_db demo_link))))"
    by blast
  then show ?thesis using sel anc by simp
qed

subsection \<open>Saving an answer and classifying the event\<close>

lemma answer_sources_frame:
  "case answer_sources h d r tk q v c of
     Inl e \<Rightarrow> True
   | Inr src \<Rightarrow> task_answer_histories (src_db src) = task_answer_histories d \<and>
                events (src_db src) = events d \<and> task_answers (src_db src) = task_answers d"
  by (simp add: answer_sources_def Task_create_def Let_def
      split: sum.splits option.splits pyvalue.splits)

lemma answer_sources_frame_Inr:
  assumes "answer_sources h d r tk q v c = Inr src"
  shows "task_answer_histories (src_db src) = task_answer_histories d"
    and "events (src_db src) = events d" and "task_answers (src_db src) = task_answers d"
  using answer_sources_frame [where h=h and d=d and r=r and tk=tk and q=q and v=v and c=c] assms
  by simp_all

lemma differs_materially_cong:
  "task_answer_histories d' = task_answer_histories d \<Longrightarrow>
   differs_materially d' a v ts f = differs_materially d a v ts f"
  by (simp add: differs_materially_def get_current_answer_def get_history_def)

lemma save_and_respond_Inr:
  assumes "answer_sources h (snd (get_or_create d (task_id tk) (q_id q))) r tk q v c = Inr src"
  shows "save_and_respond h d r tk q v c =
     (JsonOk (src_redirect_to src),
      (snd (store_answer (src_db src) (fst (get_or_create d (task_id tk) (q_id q))) r
              (src_value src) (src_answered_by_tasks src) (src_answered_by_file src) c))
       \<lparr>events := events d @
          [answer_event
             (snd (store_answer (src_db src) (fst (get_or_create d (task_id tk) (q_id q))) r
                (src_value src) (src_answered_by_tasks src) (src_answered_by_file src) c))
             r tk q (fst (get_or_create d (task_id tk) (q_id q)))
             (fst (store_answer (src_db src) (fst (get_or_create d (task_id tk) (q_id q))) r
                (src_value src) (src_answered_by_tasks src) (src_answered_by_file src) c))
             (src_value src)]\<rparr>)"
  using assms answer_sources_frame_Inr(2) [OF assms]
  by (simp add: save_and_respond_def split_beta Let_def store_answer_frame get_or_create_frame)

lemma store_answer_save:
  "store_answer d a r v ts f False =
     (if differs_materially d a v (map task_id ts) f
      then (if nq_post_method r = Some ''skip'' then ''skip''
            else if has_answer d a then ''change'' else ''answer'',
            d\<lparr>task_answer_histories := task_answer_histories d @
               [\<lparr>taskanswer = ta_id a, stored_value = v, answered_by_task = map task_id ts,
                 answered_by_file = f, cleared = False, answered_by = nq_user r\<rparr>]\<rparr>)
      else (''keep'', d))"
  by (simp add: store_answer_def save_answer_def Let_def)

lemma answer_event_type [simp]: "ev_event_type (answer_event d r tk q a ty v) = ''task-question-'' @ ty"
  by (simp add: answer_event_def)


lemma not_differs_after_save:
  "\<not> differs_materially (snd (save_answer d a v ts f u)) a v ts f"
  using current_answer_save [of d a v ts f u] by (auto simp: differs_materially_def)

lemma differs_materially_events [simp]:
  "differs_materially (d\<lparr>events := es\<rparr>) a v ts f = differs_materially d a v ts f"
  by (simp add: differs_materially_def)

text \<open>
  Claim C2, as the code has it. For a save or skip that reaches \<^verbatim>\<open>save_answer\<close>, a
  history entry is appended exactly when the proposed value, tasks and file differ
  materially from the current answer: there is no current entry, or it is cleared, or the
  value or the file differs structurally, or the tasks are not the same set of tasks. The
  event of the request is classified by the result of the save: keep when nothing
  changed; when something changed, skip if the method is skip, else change if the
  question had an answer, else answer. Saving the same value, tasks and file again is
  classified keep and adds no entry.
\<close>

theorem save_records_changes_and_classifies:
  assumes "nq_authenticated r"
      and "get_task_in_org d (nq_taskid r) (nq_organization r) = Some tk"
      and "get_answers h d tk = Inr answered"
      and "has_write_priv h (nq_user r) tk None"
      and "get_question h d tk (nq_question r) = Inr q"
      and rv: "read_value h q answered r = Proceed v False"
      and goc: "get_or_create d (task_id tk) (q_id q) = (a, d1)"
      and src: "answer_sources h d1 r tk q v False = Inr src"
      and res: "next_question_post h d r = (resp, d')"
  shows "task_answer_histories d' = task_answer_histories d @
           (if differs_materially d a (src_value src) (map task_id (src_answered_by_tasks src))
                 (src_answered_by_file src)
            then [\<lparr>taskanswer = ta_id a, stored_value = src_value src,
                    answered_by_task = map task_id (src_answered_by_tasks src),
                    answered_by_file = src_answered_by_file src, cleared = False,
                    answered_by = nq_user r\<rparr>]
            else []) \<and>
         (\<exists>ev. events d' = events d @ [ev] \<and>
            ev_event_type ev = ''task-question-'' @
              (if \<not> differs_materially d a (src_value src) (map task_id (src_answered_by_tasks src))
                      (src_answered_by_file src) then ''keep''
               else if nq_post_method r = Some ''skip'' then ''skip''
               else if has_answer d a then ''change''
               else ''answer'')) \<and>
         store_answer d' a r (src_value src) (src_answered_by_tasks src) (src_answered_by_file src)
           False = (''keep'', d') \<and>
         (differs_materially d a (src_value src) (map task_id (src_answered_by_tasks src))
              (src_answered_by_file src) \<longleftrightarrow>
          (\<forall>e. get_current_answer d a = Some e \<longrightarrow>
             cleared e \<or> stored_value e \<noteq> src_value src \<or>
             set (answered_by_task e) \<noteq> set (map task_id (src_answered_by_tasks src)) \<or>
             answered_by_file e \<noteq> src_answered_by_file src))"
proof -
  define dv where "dv = src_value src"
  define dt where "dt = src_answered_by_tasks src"
  define df where "df = src_answered_by_file src"
  define dS where "dS = src_db src"
  have a: "a = fst (get_or_create d (task_id tk) (q_id q))"
    and d1: "d1 = snd (get_or_create d (task_id tk) (q_id q))"
    using goc by simp_all
  have src': "answer_sources h (snd (get_or_create d (task_id tk) (q_id q))) r tk q v False = Inr src"
    using src unfolding d1 .
  have hS: "task_answer_histories dS = task_answer_histories d"
    unfolding dS_def using answer_sources_frame_Inr(1) [OF src'] by (simp add: get_or_create_frame)
  have diff: "differs_materially dS a dv (map task_id dt) df =
      differs_materially d a dv (map task_id dt) df"
    by (rule differs_materially_cong [OF hS])
  have has: "has_answer dS a = has_answer d a" by (rule has_answer_cong [OF hS])
  have "next_question_post h d r = save_and_respond h d r tk q v False"
    using next_question_post_resolved [OF assms(1-5)] rv by simp
  then have d': "d' = (snd (store_answer dS a r dv dt df False))
       \<lparr>events := events d @
          [answer_event (snd (store_answer dS a r dv dt df False)) r tk q a
             (fst (store_answer dS a r dv dt df False)) dv]\<rparr>"
    using res unfolding save_and_respond_Inr [OF src'] a dS_def dv_def dt_def df_def by simp
  note st = store_answer_save [of dS a r dv dt df]
  have c1: "task_answer_histories d' = task_answer_histories d @
           (if differs_materially d a dv (map task_id dt) df
            then [\<lparr>taskanswer = ta_id a, stored_value = dv,
                    answered_by_task = map task_id dt,
                    answered_by_file = df, cleared = False,
                    answered_by = nq_user r\<rparr>]
            else [])"
    unfolding d' st diff using hS by simp
  have c2: "\<exists>ev. events d' = events d @ [ev] \<and>
            ev_event_type ev = ''task-question-'' @
              (if \<not> differs_materially d a dv (map task_id dt) df then ''keep''
               else if nq_post_method r = Some ''skip'' then ''skip''
               else if has_answer d a then ''change''
               else ''answer'')"
    unfolding d' st diff has by simp
  have "\<not> differs_materially (snd (store_answer dS a r dv dt df False)) a dv (map task_id dt) df"
    unfolding store_answer_db using not_differs_after_save [of dS a dv "map task_id dt" df "nq_user r"]
    by simp
  then have "\<not> differs_materially d' a dv (map task_id dt) df" unfolding d' by simp
  then have c3: "store_answer d' a r dv dt df False = (''keep'', d')"
    by (simp add: store_answer_save)
  have c4: "differs_materially d a dv (map task_id dt) df \<longleftrightarrow>
          (\<forall>e. get_current_answer d a = Some e \<longrightarrow>
             cleared e \<or> stored_value e \<noteq> dv \<or>
             set (answered_by_task e) \<noteq> set (map task_id dt) \<or>
             answered_by_file e \<noteq> df)"
    by (cases "get_current_answer d a") (auto simp: differs_materially_def same_answer_def)
  show ?thesis using c1 c2 c3 c4 unfolding dv_def dt_def df_def by blast
qed


text \<open>
  Claim C2 as stated fails for a skip: skipping a question that has no answer is a save
  that is not a clear, it records a new entry, and the question had no answer before, yet
  the event is classified skip and not answer.
\<close>

theorem skip_is_not_classified_answer:
  "read_value demo_host demo_q_name \<lparr>as_dict = [], can_answer = [], was_imputed = []\<rparr> demo_skip =
     Proceed PNone False \<and>
   find_task_answer demo_db 1 11 = None \<and>
   \<not> has_answer demo_db \<lparr>ta_id = 2, ta_task = 1, ta_question = 11\<rparr> \<and>
   fst (save_answer (snd (get_or_create demo_db 1 11)) (fst (get_or_create demo_db 1 11))
          PNone [] PNone 7) \<and>
   next_question_post demo_host demo_db demo_skip = (JsonOk ''/tasks/parent'', demo_skipped_db) \<and>
   length (task_answer_histories demo_skipped_db) = length (task_answer_histories demo_db) + 1 \<and>
   map ev_event_type (events demo_skipped_db) = [''task-question-skip'']"
proof -
  have a: "read_value demo_host demo_q_name \<lparr>as_dict = [], can_answer = [], was_imputed = []\<rparr>
      demo_skip = Proceed PNone False" by code_simp
  have b: "find_task_answer demo_db 1 11 = None" by code_simp
  have c: "\<not> has_answer demo_db \<lparr>ta_id = 2, ta_task = 1, ta_question = 11\<rparr>" by code_simp
  have e: "fst (save_answer (snd (get_or_create demo_db 1 11)) (fst (get_or_create demo_db 1 11))
          PNone [] PNone 7)" by code_simp
  have f: "length (task_answer_histories demo_skipped_db) =
      length (task_answer_histories demo_db) + 1" by code_simp
  have g: "map ev_event_type (events demo_skipped_db) = [''task-question-skip'']" by code_simp
  show ?thesis using a b c e f g demo_skip_run by blast
qed

lemma demo_save_resolved:
  "nq_authenticated demo_save"
  "get_task_in_org demo_db (nq_taskid demo_save) (nq_organization demo_save) = Some demo_parent"
  "get_answers demo_host demo_db demo_parent = Inr \<lparr>as_dict = [], can_answer = [], was_imputed = []\<rparr>"
  "has_write_priv demo_host (nq_user demo_save) demo_parent None"
  "get_question demo_host demo_db demo_parent (nq_question demo_save) = Inr demo_q_name"
  "read_value demo_host demo_q_name \<lparr>as_dict = [], can_answer = [], was_imputed = []\<rparr> demo_save =
     Proceed (PStr ''yes'') False"
  "get_or_create demo_db (task_id demo_parent) (q_id demo_q_name) =
     (\<lparr>ta_id = 2, ta_task = 1, ta_question = 11\<rparr>,
      demo_db\<lparr>task_answers := [\<lparr>ta_id = 1, ta_task = 1, ta_question = 10\<rparr>,
                                 \<lparr>ta_id = 2, ta_task = 1, ta_question = 11\<rparr>]\<rparr>)"
  "answer_sources demo_host
     (demo_db\<lparr>task_answers := [\<lparr>ta_id = 1, ta_task = 1, ta_question = 10\<rparr>,
                                 \<lparr>ta_id = 2, ta_task = 1, ta_question = 11\<rparr>]\<rparr>)
     demo_save demo_parent demo_q_name (PStr ''yes'') False =
     Inr \<lparr>src_db = demo_db\<lparr>task_answers := [\<lparr>ta_id = 1, ta_task = 1, ta_question = 10\<rparr>,
                                 \<lparr>ta_id = 2, ta_task = 1, ta_question = 11\<rparr>]\<rparr>,
          src_value = PStr ''yes'', src_answered_by_tasks = [], src_answered_by_file = PNone,
          src_redirect_to = ''/tasks/parent''\<rparr>"
  "next_question_post demo_host demo_db demo_save = (JsonOk ''/tasks/parent'', demo_saved_db)"
  by code_simp+

theorem save_records_changes_and_classifies_witness:
  "next_question_post demo_host demo_db demo_save = (JsonOk ''/tasks/parent'', demo_saved_db) \<and>
   differs_materially demo_db \<lparr>ta_id = 2, ta_task = 1, ta_question = 11\<rparr> (PStr ''yes'') [] PNone \<and>
   \<not> has_answer demo_db \<lparr>ta_id = 2, ta_task = 1, ta_question = 11\<rparr> \<and>
   map ev_event_type (events demo_saved_db) = [''task-question-answer''] \<and>
   store_answer demo_saved_db \<lparr>ta_id = 2, ta_task = 1, ta_question = 11\<rparr> demo_save
     (PStr ''yes'') [] PNone False = (''keep'', demo_saved_db) \<and>
   task_answer_histories (snd (next_question_post demo_host demo_saved_db demo_save)) =
     task_answer_histories demo_saved_db \<and>
   map ev_event_type (events (snd (next_question_post demo_host demo_saved_db demo_save))) =
     [''task-question-answer'', ''task-question-keep''] \<and>
   map ev_event_type (events (snd (next_question_post demo_host demo_saved_db
       (demo_save\<lparr>nq_value := [''no'']\<rparr>)))) =
     [''task-question-answer'', ''task-question-change''] \<and>
   map answered_by_task (task_answer_histories demo_set_db) = [ [2, 3] ] \<and>
   nq_value demo_relink = [''3,2''] \<and>
   task_answer_histories (snd (next_question_post demo_host demo_set_db demo_relink)) =
     task_answer_histories demo_set_db \<and>
   map ev_event_type (events (snd (next_question_post demo_host demo_set_db demo_relink))) =
     [''task-question-keep''] \<and>
   map ev_event_type (events (snd (next_question_post demo_host demo_set_db
       (demo_relink\<lparr>nq_value := [''3'']\<rparr>)))) =
     [''task-question-change'']"
proof -
  note T = save_records_changes_and_classifies [OF demo_save_resolved]
  from T have keep: "store_answer demo_saved_db \<lparr>ta_id = 2, ta_task = 1, ta_question = 11\<rparr> demo_save
     (PStr ''yes'') [] PNone False = (''keep'', demo_saved_db)"
    by simp
  have a: "differs_materially demo_db \<lparr>ta_id = 2, ta_task = 1, ta_question = 11\<rparr>
      (PStr ''yes'') [] PNone" by code_simp
  have b: "\<not> has_answer demo_db \<lparr>ta_id = 2, ta_task = 1, ta_question = 11\<rparr>" by code_simp
  have c: "map ev_event_type (events demo_saved_db) = [''task-question-answer'']" by code_simp
  have e: "task_answer_histories (snd (next_question_post demo_host demo_saved_db demo_save)) =
     task_answer_histories demo_saved_db" by code_simp
  have f: "map ev_event_type (events (snd (next_question_post demo_host demo_saved_db demo_save))) =
     [''task-question-answer'', ''task-question-keep'']" by code_simp
  have g: "map ev_event_type (events (snd (next_question_post demo_host demo_saved_db
       (demo_save\<lparr>nq_value := [''no'']\<rparr>)))) =
     [''task-question-answer'', ''task-question-change'']" by code_simp
  have s1: "map answered_by_task (task_answer_histories demo_set_db) = [ [2, 3] ]" by code_simp
  have s2: "nq_value demo_relink = [''3,2'']" by code_simp
  have s3: "task_answer_histories (snd (next_question_post demo_host demo_set_db demo_relink)) =
     task_answer_histories demo_set_db" by code_simp
  have s4: "map ev_event_type (events (snd (next_question_post demo_host demo_set_db demo_relink))) =
     [''task-question-keep'']" by code_simp
  have s5: "map ev_event_type (events (snd (next_question_post demo_host demo_set_db
       (demo_relink\<lparr>nq_value := [''3'']\<rparr>)))) =
     [''task-question-change'']" by code_simp
  show ?thesis using demo_save_resolved(9) keep a b c e f g s1 s2 s3 s4 s5 by blast
qed

subsection \<open>Rendering output documents\<close>









subsection \<open>Creating a task as the answer\<close>

















end
